theory Spec2Isabelle
  imports Main "HOL-Library.Word"
begin

section \<open>Python values, errors and pandas tables\<close>

text \<open>
  Exceptions are values.  \<open>PyException msg cause\<close> is \<^verbatim>\<open>raise Exception(msg) from cause\<close>;
  the other constructors are the builtin exception classes raised by the code or by the
  pandas and numpy operations it calls.  All of them are subclasses of \<^verbatim>\<open>Exception\<close>.
\<close>

datatype error =
    TypeError
  | KeyError
  | IndexError
  | ValueError
  | AttributeError
  | PyException string "error option"

text \<open>
  A datetime is the number of seconds of wall-clock time since an epoch; the time of day
  (\<^verbatim>\<open>dt.time()\<close>) is its remainder modulo one day.  The default timezone is taken to
  have a fixed offset, so that the order and the differences of localized timestamps are
  those of the numbers.
\<close>

type_synonym datetime = int

definition time_of_day :: "datetime \<Rightarrow> int" where
  "time_of_day t = t mod 86400"

record asset =
  symbol :: string
  asset_type :: string

text \<open>
  A pandas DataFrame: the index, the timezone of the index (\<open>None\<close> for a naive index)
  and the columns in order, each with its name.  A DataFrame is rectangular: every column
  is as long as the index.
\<close>

record 'v dataframe =
  df_index :: "datetime list"
  df_tz :: "string option"
  df_columns :: "(string \<times> 'v list) list"

definition rectangular :: "'v dataframe \<Rightarrow> bool" where
  "rectangular df = list_all (\<lambda>c. length (snd c) = length (df_index df)) (df_columns df)"

text \<open>The values a Python argument of the constructor can hold.\<close>

datatype 'v pyval =
    PyNone
  | PyStr string
  | PyDatetime datetime
  | PyAsset asset
  | PyDataFrame "'v dataframe"

text \<open>Truth value of an object; the truth value of a DataFrame is ambiguous and raises.\<close>

fun py_bool :: "'v pyval \<Rightarrow> error + bool" where
  "py_bool PyNone = Inr False"
| "py_bool (PyStr s) = Inr (s \<noteq> [])"
| "py_bool (PyDatetime t) = Inr True"
| "py_bool (PyAsset a) = Inr True"
| "py_bool (PyDataFrame d) = Inl ValueError"

fun is_datetime :: "'v pyval \<Rightarrow> bool" where
  "is_datetime (PyDatetime t) = True"
| "is_datetime v = False"

subsection \<open>Slicing\<close>

text \<open>
  Basic slicing \<^verbatim>\<open>xs[start:stop]\<close> of a Python sequence or numpy array: a negative bound
  counts from the end, and both bounds are then clamped to the length.
\<close>

definition slice_bound :: "nat \<Rightarrow> int \<Rightarrow> nat" where
  "slice_bound n k = (if k < 0 then nat (max (k + int n) 0) else min (nat k) n)"

definition py_slice :: "'a list \<Rightarrow> int \<Rightarrow> int \<Rightarrow> 'a list" where
  "py_slice xs start stop =
     (let s = slice_bound (length xs) start; e = slice_bound (length xs) stop
      in take (e - s) (drop s xs))"

text \<open>
  Arithmetic on \<^verbatim>\<open>numpy.int64\<close> wraps around: the result of an operation is the exact
  result taken into the range from \<open>-2^63\<close> to \<open>2^63 - 1\<close>.
\<close>

definition int64 :: "int \<Rightarrow> int" where
  "int64 x = (x + 2 ^ 63) mod 2 ^ 64 - 2 ^ 63"

text \<open>Rows \<open>lo \<le> i < hi\<close> of a table, and the rows whose timestamp satisfies a predicate.\<close>

definition rows_between :: "nat \<Rightarrow> nat \<Rightarrow> 'v dataframe \<Rightarrow> 'v dataframe" where
  "rows_between lo hi df =
     df\<lparr>df_index := take (hi - lo) (drop lo (df_index df)),
        df_columns := map (\<lambda>(name, vs). (name, take (hi - lo) (drop lo vs))) (df_columns df)\<rparr>"

definition rows_where :: "(datetime \<Rightarrow> bool) \<Rightarrow> 'v dataframe \<Rightarrow> 'v dataframe" where
  "rows_where P df =
     df\<lparr>df_index := filter P (df_index df),
        df_columns := map (\<lambda>(name, vs).
           (name, map snd (filter (\<lambda>(t, v). P t) (zip (df_index df) vs)))) (df_columns df)\<rparr>"

subsection \<open>Label slicing and time-of-day filtering\<close>

definition positions :: "'a list \<Rightarrow> 'a \<Rightarrow> nat list" where
  "positions xs x = filter (\<lambda>i. xs ! i = x) [0..<length xs]"

text \<open>
  \<^verbatim>\<open>index.slice_locs(start, end)\<close>: on a monotonic index the bounds are found by binary
  search, so the labels need not be present and duplicates are allowed; otherwise both
  labels must occur exactly once.
\<close>

definition slice_locs :: "datetime list \<Rightarrow> datetime \<Rightarrow> datetime \<Rightarrow> error + nat \<times> nat" where
  "slice_locs idx start end =
     (if sorted idx then
        Inr (length (takeWhile (\<lambda>t. t < start) idx), length (takeWhile (\<lambda>t. t \<le> end) idx))
      else if sorted (rev idx) then
        Inr (length (takeWhile (\<lambda>t. start < t) idx), length (takeWhile (\<lambda>t. end \<le> t) idx))
      else
        (case (positions idx start, positions idx end) of
           ([i], [j]) \<Rightarrow> Inr (i, Suc j)
         | _ \<Rightarrow> Inl KeyError))"

text \<open>\<^verbatim>\<open>df.loc[start:end, :]\<close>\<close>

definition loc_slice :: "'v dataframe \<Rightarrow> datetime \<Rightarrow> datetime \<Rightarrow> error + 'v dataframe" where
  "loc_slice df start end =
     (case slice_locs (df_index df) start end of
        Inl e \<Rightarrow> Inl e
      | Inr (lo, hi) \<Rightarrow> Inr (rows_between lo hi df))"

text \<open>
  \<^verbatim>\<open>df.between_time(start_time, end_time)\<close>, both ends included; when the start time is
  after the end time the interval wraps around midnight.
\<close>

definition between_time :: "'v dataframe \<Rightarrow> int \<Rightarrow> int \<Rightarrow> 'v dataframe" where
  "between_time df start_time end_time =
     (if start_time \<le> end_time
      then rows_where (\<lambda>t. start_time \<le> time_of_day t \<and> time_of_day t \<le> end_time) df
      else rows_where (\<lambda>t. start_time \<le> time_of_day t \<or> time_of_day t \<le> end_time) df)"

section \<open>The Data entity (lumibot/entities/data.py)\<close>

text \<open>
  A Dataline holds one numpy array: the timestamps of the index, or the values of one
  column.  \<open>datalines\<close> is the dictionary from name to Dataline, in insertion order.
\<close>

datatype 'v dataline = Stamps "datetime list" | Vals "'v list"

fun dataline_length :: "'v dataline \<Rightarrow> nat" where
  "dataline_length (Stamps ts) = length ts"
| "dataline_length (Vals vs) = length vs"

fun dataline_slice :: "'v dataline \<Rightarrow> int \<Rightarrow> int \<Rightarrow> 'v dataline" where
  "dataline_slice (Stamps ts) start stop = Stamps (py_slice ts start stop)"
| "dataline_slice (Vals vs) start stop = Vals (py_slice vs start stop)"

text \<open>\<^verbatim>\<open>d.update({k: v})\<close>: an existing key keeps its place, a new key goes last.\<close>

fun dict_update :: "'k \<Rightarrow> 'a \<Rightarrow> ('k \<times> 'a) list \<Rightarrow> ('k \<times> 'a) list" where
  "dict_update k v [] = [(k, v)]"
| "dict_update k v (p # ps) = (if fst p = k then (k, v) # ps else p # dict_update k v ps)"

text \<open>
  The fields of a series hold what \<open>__init__\<close> assigns.  \<open>attrs\<close> holds the attributes that
  \<open>to_datalines\<close> sets with \<^verbatim>\<open>setattr\<close>, the array of the timestamps and the array of each
  column under its name: an attribute set this way takes the place of a field or of a
  method of the same name, and whoever reads that name afterwards finds an array.
\<close>

record 'v Data =
  data_strategy :: "'v pyval"
  data_asset :: asset
  data_symbol :: string
  data_df :: "'v dataframe"
  date_start :: datetime
  date_end :: datetime
  iter_index :: "(datetime \<times> nat) list"
  datalines :: "(string \<times> 'v dataline) list"
  attrs :: "(string \<times> 'v dataline) list"

definition named :: "string \<Rightarrow> (string \<times> 'a) list \<Rightarrow> bool" where
  "named name ps = (name \<in> set (map fst ps))"

text \<open>
  Modelled from the spec: \<^verbatim>\<open>LUMIBOT_DEFAULT_PYTZ\<close> is declared outside the files at hand;
  the spec says only that it is one fixed default timezone.
\<close>

definition DEFAULT_PYTZ :: string where
  "DEFAULT_PYTZ = ''DEFAULT_PYTZ''"

definition lower_char :: "char \<Rightarrow> char" where
  "lower_char c =
     (let n = (of_char c :: nat) in if 65 \<le> n \<and> n \<le> 90 then char_of (n + 32) else c)"

definition lower :: "string \<Rightarrow> string" where
  "lower s = map lower_char s"

definition columns :: "'v dataframe \<Rightarrow> 'v dataframe" where
  "columns df =
     df\<lparr>df_columns := map (\<lambda>(col, vs).
        (if lower col \<in> set [''open'', ''high'', ''low'', ''close'', ''volume'']
         then lower col else col, vs)) (df_columns df)\<rparr>"

text \<open>\<^verbatim>\<open>tz_localize\<close> raises TypeError on an index that is already timezone-aware.\<close>

definition set_date_format :: "'v dataframe \<Rightarrow> error + 'v dataframe" where
  "set_date_format df =
     (case df_tz df of
        Some z \<Rightarrow> Inl TypeError
      | None \<Rightarrow> Inr (df\<lparr>df_tz := Some DEFAULT_PYTZ\<rparr>))"

definition check_date :: "'v pyval \<Rightarrow> error + unit" where
  "check_date dt =
     (case py_bool dt of
        Inl e \<Rightarrow> Inl e
      | Inr b \<Rightarrow> if b \<and> \<not> is_datetime dt then Inl TypeError else Inr ())"

definition index_first :: "'v dataframe \<Rightarrow> error + datetime" where
  "index_first df = (case df_index df of [] \<Rightarrow> Inl IndexError | t # ts \<Rightarrow> Inr t)"

definition index_last :: "'v dataframe \<Rightarrow> error + datetime" where
  "index_last df = (if df_index df = [] then Inl IndexError else Inr (last (df_index df)))"

text \<open>
  After \<open>check_date\<close> a bound is either a datetime or a false value; a false value is
  replaced by the first (last) timestamp of the index.  \<^verbatim>\<open>to_datetime_aware\<close> leaves the
  wall-clock value as it is.
\<close>

definition bound_or :: "'v pyval \<Rightarrow> error + datetime \<Rightarrow> error + datetime" where
  "bound_or dt dflt = (case dt of PyDatetime t \<Rightarrow> Inr t | _ \<Rightarrow> dflt)"

definition set_dates ::
  "'v dataframe \<Rightarrow> 'v pyval \<Rightarrow> 'v pyval \<Rightarrow> error + datetime \<times> datetime" where
  "set_dates df dstart dend =
     (case check_date dstart of Inl e \<Rightarrow> Inl e | Inr u \<Rightarrow>
     (case check_date dend of Inl e \<Rightarrow> Inl e | Inr u' \<Rightarrow>
     (case bound_or dstart (index_first df) of Inl e \<Rightarrow> Inl e | Inr s \<Rightarrow>
     (case bound_or dend (index_last df) of Inl e \<Rightarrow> Inl e | Inr e \<Rightarrow> Inr (s, e)))))"

definition trim_data :: "'v dataframe \<Rightarrow> datetime \<Rightarrow> datetime \<Rightarrow> error + 'v dataframe" where
  "trim_data df start end =
     (case loc_slice df start end of
        Inl e \<Rightarrow> Inl e
      | Inr df' \<Rightarrow> Inr (between_time df' (time_of_day start) (time_of_day end)))"

text \<open>
  The loop of \<open>to_datalines\<close> over the column names, on the dictionary of datalines and
  the attributes set so far.  Once a column named \<open>datalines\<close> has been set as an
  attribute, \<^verbatim>\<open>self.datalines.update\<close> finds an array, which has no \<^verbatim>\<open>update\<close>; once a
  column named \<open>df\<close> has been set, \<^verbatim>\<open>self.df[column]\<close> indexes an array by a string.
  \<^verbatim>\<open>self.df[column]\<close> is a DataFrame, which has no \<^verbatim>\<open>dtype\<close>, when the name occurs more than
  once.
\<close>

fun add_datalines ::
  "'v dataframe \<Rightarrow> (string \<times> 'v list) list
     \<Rightarrow> (string \<times> 'v dataline) list \<times> (string \<times> 'v dataline) list
     \<Rightarrow> error + (string \<times> 'v dataline) list \<times> (string \<times> 'v dataline) list" where
  "add_datalines df [] (dls, ats) = Inr (dls, ats)"
| "add_datalines df ((column, vs) # cols) (dls, ats) =
     (if named ''datalines'' ats then Inl AttributeError
      else if named ''df'' ats then Inl IndexError
      else if length (filter (\<lambda>c. fst c = column) (df_columns df)) > 1 then Inl AttributeError
      else add_datalines df cols
             (dict_update column (Vals vs) dls, dict_update column (Vals vs) ats))"

definition to_datalines ::
  "'v dataframe \<Rightarrow> error + (string \<times> 'v dataline) list \<times> (string \<times> 'v dataline) list" where
  "to_datalines df =
     add_datalines df (df_columns df)
       (dict_update ''datetime'' (Stamps (df_index df)) [],
        dict_update ''datetime'' (Stamps (df_index df)) [])"

text \<open>
  \<^verbatim>\<open>Data.__init__(self, strategy, asset, df, date_start, date_end, timestep, columns)\<close>.
  The last two parameters are accepted and not used.
\<close>

definition Data_init ::
  "'v pyval \<Rightarrow> asset \<Rightarrow> 'v dataframe \<Rightarrow> 'v pyval \<Rightarrow> 'v pyval \<Rightarrow> 'v pyval \<Rightarrow> 'v pyval
     \<Rightarrow> error + 'v Data" where
  "Data_init strat a df dstart dend timestep cols =
     (case set_date_format (columns df) of Inl e \<Rightarrow> Inl e | Inr df1 \<Rightarrow>
     (case set_dates df1 dstart dend of Inl e \<Rightarrow> Inl e | Inr (s, e) \<Rightarrow>
     (case trim_data df1 s e of Inl e \<Rightarrow> Inl e | Inr df2 \<Rightarrow>
     (case to_datalines df2 of Inl e \<Rightarrow> Inl e | Inr (dls, ats) \<Rightarrow>
        Inr \<lparr>data_strategy = strat, data_asset = a, data_symbol = symbol a, data_df = df2,
             date_start = s, date_end = e,
             iter_index = zip (df_index df2) [0..<length (df_index df2)],
             datalines = dls, attrs = ats\<rparr>))))"

text \<open>
  \<^verbatim>\<open>self.iter_index[dt]\<close>: KeyError for a missing label, the row offset for a label that
  occurs once, a Series of offsets for a label that occurs several times.  When a column
  named \<open>iter_index\<close> has taken the place of the Series, an array is indexed by a datetime,
  which raises IndexError.
\<close>

datatype loc = Scalar nat | SeriesOf "nat list"

definition get_iter_count :: "'v Data \<Rightarrow> datetime \<Rightarrow> error + loc" where
  "get_iter_count d dt =
     (if named ''iter_index'' (attrs d) then Inl IndexError
      else
        (case map snd (filter (\<lambda>(t, i). t = dt) (iter_index d)) of
           [] \<Rightarrow> Inl KeyError
         | [i] \<Rightarrow> Inr (Scalar i)
         | i # j # js \<Rightarrow> Inr (SeriesOf (i # j # js))))"

text \<open>The table returned by \<open>get_bars\<close>: \<^verbatim>\<open>pd.DataFrame(df_dict).set_index("datetime")\<close>.\<close>

record 'v bars =
  bars_index :: "'v dataline"
  bars_columns :: "(string \<times> 'v dataline) list"

definition set_index :: "string \<Rightarrow> (string \<times> 'v dataline) list \<Rightarrow> error + 'v bars" where
  "set_index name df_dict =
     (case map_of df_dict name of
        None \<Rightarrow> Inl KeyError
      | Some dl \<Rightarrow> Inr \<lparr>bars_index = dl, bars_columns = filter (\<lambda>c. fst c \<noteq> name) df_dict\<rparr>)"

text \<open>
  \<open>get_bars\<close>.  The length and the timeshift are Python integers within the range of
  \<^verbatim>\<open>numpy.int64\<close>, read as signed; the row offset that \<open>get_iter_count\<close> returns is a
  \<^verbatim>\<open>numpy.int64\<close>, so \<open>end_row\<close> and \<open>start_row\<close> are computed with wrap-around.  With a Series
  of offsets the test \<^verbatim>\<open>start_row < 0\<close> has no truth value and raises ValueError.  Only
  \<open>start_row\<close> is clamped; \<open>end_row\<close> goes to the slice as it is.  A column named \<open>get_bars\<close>
  or \<open>get_iter_count\<close> has put an array in the place of the method, and calling it
  raises TypeError; a column named \<open>datalines\<close> has put an array in the place of the
  dictionary, which has no \<^verbatim>\<open>items\<close>.
\<close>

definition get_bars ::
  "'v Data \<Rightarrow> datetime \<Rightarrow> 64 word \<Rightarrow> string \<Rightarrow> 64 word \<Rightarrow> error + 'v bars" where
  "get_bars d dt len timestep timeshift =
     (if named ''get_bars'' (attrs d) \<or> named ''get_iter_count'' (attrs d) then Inl TypeError
      else
        (case get_iter_count d dt of
           Inl e \<Rightarrow> Inl e
         | Inr (SeriesOf offs) \<Rightarrow> Inl ValueError
         | Inr (Scalar i) \<Rightarrow>
             (let end_row = int64 (int64 (int i + 1) - sint timeshift);
                  start_row0 = int64 (end_row - sint len);
                  start_row = (if start_row0 < 0 then 0 else start_row0)
              in if named ''datalines'' (attrs d) then Inl AttributeError
                 else set_index ''datetime''
                        (map (\<lambda>(dl_name, dl). (dl_name, dataline_slice dl start_row end_row))
                           (datalines d)))))"

text \<open>Rows \<open>s \<le> j < e\<close> of every dataline of a series, as a table indexed by time.\<close>

fun dataline_rows :: "'v dataline \<Rightarrow> nat \<Rightarrow> nat \<Rightarrow> 'v dataline" where
  "dataline_rows (Stamps ts) s e = Stamps (take (e - s) (drop s ts))"
| "dataline_rows (Vals vs) s e = Vals (take (e - s) (drop s vs))"

definition window_rows :: "'v Data \<Rightarrow> nat \<Rightarrow> nat \<Rightarrow> error + 'v bars" where
  "window_rows d s e =
     set_index ''datetime''
       (map (\<lambda>(dl_name, dl). (dl_name, dataline_rows dl s e)) (datalines d))"

text \<open>
  The names that a call of \<open>get_bars\<close> reads on the series.  No column has taken the
  place of one of them when none of them is among the attributes set by name.
\<close>

definition get_bars_reads :: "string list" where
  "get_bars_reads = [''get_bars'', ''get_iter_count'', ''iter_index'', ''datalines'']"

definition reads_intact :: "'v Data \<Rightarrow> bool" where
  "reads_intact d = list_all (\<lambda>name. \<not> named name (attrs d)) get_bars_reads"

section \<open>The call of the constructor\<close>

text \<open>
  Python binds the arguments of a call to the parameters of the signature before the body
  runs: positional arguments to the leading parameters, keyword arguments by name, then
  the defaults.  A keyword that is not a parameter, a parameter given twice and a
  parameter left without a value each raise TypeError.
\<close>

definition bind_args ::
  "string list \<Rightarrow> (string \<times> 'v pyval) list \<Rightarrow> 'v pyval list \<Rightarrow> (string \<times> 'v pyval) list
     \<Rightarrow> error + (string \<rightharpoonup> 'v pyval)" where
  "bind_args params defaults args kwargs =
     (if length params < length args then Inl TypeError
      else if list_ex (\<lambda>kw. fst kw \<notin> set params) kwargs then Inl TypeError
      else if list_ex (\<lambda>kw. fst kw \<in> set (take (length args) params)) kwargs then Inl TypeError
      else
        (let bound = map_of defaults ++ map_of (zip params args) ++ map_of kwargs
         in if list_ex (\<lambda>p. bound p = None) params then Inl TypeError else Inr bound))"

definition Data_params :: "string list" where
  "Data_params =
     [''strategy'', ''asset'', ''df'', ''date_start'', ''date_end'', ''timestep'', ''columns'']"

definition Data_defaults :: "(string \<times> 'v pyval) list" where
  "Data_defaults =
     [(''date_start'', PyNone), (''date_end'', PyNone), (''timestep'', PyStr ''day''),
      (''columns'', PyNone)]"

definition arg :: "(string \<rightharpoonup> 'v pyval) \<Rightarrow> string \<Rightarrow> 'v pyval" where
  "arg bound name = (case bound name of Some v \<Rightarrow> v | None \<Rightarrow> PyNone)"

text \<open>
  \<^verbatim>\<open>Data(*args, **kwargs)\<close>.  The body reads \<^verbatim>\<open>asset.symbol\<close> and \<^verbatim>\<open>df.columns\<close>, which
  raise AttributeError on a value of another class.
\<close>

definition Data_call :: "'v pyval list \<Rightarrow> (string \<times> 'v pyval) list \<Rightarrow> error + 'v Data" where
  "Data_call args kwargs =
     (case bind_args Data_params Data_defaults args kwargs of
        Inl e \<Rightarrow> Inl e
      | Inr bound \<Rightarrow>
          (case (arg bound ''asset'', arg bound ''df'') of
             (PyAsset a, PyDataFrame df) \<Rightarrow>
               Data_init (arg bound ''strategy'') a df (arg bound ''date_start'')
                 (arg bound ''date_end'') (arg bound ''timestep'') (arg bound ''columns'')
           | _ \<Rightarrow> Inl AttributeError))"

section \<open>The ThetaData backtesting source (lumibot/backtesting/thetadata\_backtesting.py)\<close>

text \<open>\<^verbatim>\<open>START_BUFFER = timedelta(days=5)\<close>, in seconds.\<close>

definition START_BUFFER :: int where
  "START_BUFFER = 5 * 86400"

text \<open>
  The \<open>asset\<close> argument is one Asset or a tuple of two; the key of the cache is always the
  tuple of asset and quote.
\<close>

datatype asset_arg = OneAsset asset | AssetPair asset asset

type_synonym key = "asset \<times> asset"

text \<open>
  An object held in the cache: \<open>update_pandas_data\<close> reads its attributes \<^verbatim>\<open>df\<close> and
  \<^verbatim>\<open>timestep\<close>.  \<open>Data.__init__\<close> sets no attribute \<^verbatim>\<open>timestep\<close>; \<open>ce_timestep\<close> is \<open>None\<close>
  for an object without it.
\<close>

record 'v cache_entry =
  ce_data :: "'v Data"
  ce_timestep :: "string option"

text \<open>The arguments of one call of the provider, \<^verbatim>\<open>thetadata_helper.get_price_data\<close>.\<close>

record price_request =
  rq_username :: "string option"
  rq_password :: "string option"
  rq_asset :: asset
  rq_start :: datetime
  rq_end :: datetime
  rq_timespan :: string
  rq_quote_asset :: asset
  rq_dt :: datetime

datatype log_entry =
    LogTraceback error
  | LogLastPriceError error datetime asset_arg

text \<open>
  The state of a \<open>ThetaDataBacktesting\<close> object.  \<open>datetime_now\<close> is what
  \<^verbatim>\<open>self.get_datetime()\<close> returns.  \<open>fetch_log\<close> and \<open>info_log\<close> record the effects on the
  outside: the provider calls issued so far and the messages given to \<^verbatim>\<open>logging.info\<close>,
  oldest first.
\<close>

record 'v thetadata =
  pandas_data :: "key \<rightharpoonup> 'v cache_entry"
  data_store :: "key \<rightharpoonup> 'v cache_entry"
  datetime_end :: datetime
  datetime_now :: datetime
  username :: "string option"
  password :: "string option"
  fetch_log :: "price_request list"
  info_log :: "log_entry list"

text \<open>
  The collaborators that are not in the files at hand are parameters: the provider, and
  the methods inherited from the base class \<open>PandasData\<close>.
\<close>

record 'v env =
  get_start_datetime_and_ts_unit ::
    "'v thetadata \<Rightarrow> int \<Rightarrow> string option \<Rightarrow> datetime option \<Rightarrow> int \<Rightarrow> error + datetime \<times> string"
  get_price_data :: "price_request \<Rightarrow> error + 'v dataframe option"
  set_pandas_data_keys :: "'v cache_entry list \<Rightarrow> error + (key \<rightharpoonup> 'v cache_entry)"
  super_pull_source_symbol_bars ::
    "'v thetadata \<Rightarrow> asset_arg \<Rightarrow> int \<Rightarrow> string option \<Rightarrow> int option \<Rightarrow> asset option
       \<Rightarrow> string option \<Rightarrow> bool \<Rightarrow> error + 'v bars option"
  super_get_last_price ::
    "'v thetadata \<Rightarrow> asset_arg \<Rightarrow> asset option \<Rightarrow> string option \<Rightarrow> error + 'v option"

text \<open>Lines 72 to 79: the asset, the quote and the key of the cache.\<close>

definition separate :: "asset_arg \<Rightarrow> asset option \<Rightarrow> asset \<times> asset" where
  "separate a quote =
     (let quote_asset = (case quote of Some q \<Rightarrow> q
                         | None \<Rightarrow> \<lparr>symbol = ''USD'', asset_type = ''forex''\<rparr>)
      in case a of
           AssetPair asset_separated quote_asset' \<Rightarrow> (asset_separated, quote_asset')
         | OneAsset search_asset \<Rightarrow> (search_asset, quote_asset))"

text \<open>
  Lines 95 to 127, for a cached series of timestep \<open>data_timestep\<close>; \<open>enough\<close> is the test
  \<^verbatim>\<open>(data_start_datetime - start_datetime) < START_BUFFER\<close>.  \<open>None\<close> is \<^verbatim>\<open>return None\<close>;
  \<open>Some ts_unit\<close> goes on to the download with this timestep.
\<close>

definition refine_ts_unit :: "string \<Rightarrow> string \<Rightarrow> bool \<Rightarrow> string option" where
  "refine_ts_unit data_timestep ts_unit enough =
     (if data_timestep = ts_unit \<and> enough then None
      else
        (case (if ts_unit = ''day'' then
                 (if data_timestep = ''minute'' then (if enough then None else Some ''minute'')
                  else if data_timestep = ''hour'' then (if enough then None else Some ''hour'')
                  else Some ts_unit)
               else Some ts_unit) of
           None \<Rightarrow> None
         | Some ts_unit1 \<Rightarrow>
             (if ts_unit1 = ''hour'' then
                (if data_timestep = ''minute'' then (if enough then None else Some ''minute'')
                 else Some ts_unit1)
              else Some ts_unit1)))"

text \<open>
  \<^verbatim>\<open>asset_data.df.index\<close>: when a column named \<open>df\<close> has taken the place of the table, the
  attribute is an array, which has no \<^verbatim>\<open>index\<close>.
\<close>

definition entry_index :: "'v cache_entry \<Rightarrow> error + datetime list" where
  "entry_index asset_data =
     (if named ''df'' (attrs (ce_data asset_data)) then Inl AttributeError
      else Inr (df_index (data_df (ce_data asset_data))))"

text \<open>
  Lines 86 to 127.  \<^verbatim>\<open>asset_data_df.index[0]\<close> raises IndexError on an empty table, and
  \<^verbatim>\<open>asset_data.timestep\<close> raises AttributeError on an object without the attribute.
\<close>

definition check_cache ::
  "'v thetadata \<Rightarrow> key \<Rightarrow> datetime \<Rightarrow> string \<Rightarrow> error + string option" where
  "check_cache self search_asset start_datetime ts_unit =
     (case pandas_data self search_asset of
        None \<Rightarrow> Inr (Some ts_unit)
      | Some asset_data \<Rightarrow>
          (case entry_index asset_data of
             Inl e \<Rightarrow> Inl e
           | Inr [] \<Rightarrow> Inl IndexError
           | Inr (data_start_datetime # later) \<Rightarrow>
               (case ce_timestep asset_data of
                  None \<Rightarrow> Inl AttributeError
                | Some data_timestep \<Rightarrow>
                    Inr (refine_ts_unit data_timestep ts_unit
                          (data_start_datetime - start_datetime < START_BUFFER)))))"

definition price_request ::
  "'v thetadata \<Rightarrow> asset \<Rightarrow> asset \<Rightarrow> datetime \<Rightarrow> string \<Rightarrow> price_request" where
  "price_request self asset_separated quote_asset start_datetime ts_unit =
     \<lparr>rq_username = username self, rq_password = password self, rq_asset = asset_separated,
      rq_start = start_datetime, rq_end = datetime_end self, rq_timespan = ts_unit,
      rq_quote_asset = quote_asset, rq_dt = datetime_now self\<rparr>"

text \<open>Lines 129 to 157: the download, and the new series built from its result.\<close>

definition download ::
  "'v env \<Rightarrow> 'v thetadata \<Rightarrow> asset \<Rightarrow> asset \<Rightarrow> datetime \<Rightarrow> string
     \<Rightarrow> (error + (key \<rightharpoonup> 'v cache_entry) option) \<times> 'v thetadata" where
  "download env self asset_separated quote_asset start_datetime ts_unit =
     (let rq = price_request self asset_separated quote_asset start_datetime ts_unit;
          self1 = self\<lparr>fetch_log := fetch_log self @ [rq]\<rparr>
      in case get_price_data env rq of
           Inl e \<Rightarrow>
             (Inl (PyException ''Error getting data from ThetaData'' (Some e)),
              self1\<lparr>info_log := info_log self1 @ [LogTraceback e]\<rparr>)
         | Inr None \<Rightarrow> (Inr None, self1)
         | Inr (Some df) \<Rightarrow>
             (case Data_call [PyAsset asset_separated, PyDataFrame df]
                     [(''timestep'', PyStr ts_unit), (''quote'', PyAsset quote_asset)] of
                Inl e \<Rightarrow> (Inl e, self1)
              | Inr data \<Rightarrow>
                  (case set_pandas_data_keys env [\<lparr>ce_data = data, ce_timestep = None\<rparr>] of
                     Inl e \<Rightarrow> (Inl e, self1)
                   | Inr pandas_data_updated \<Rightarrow> (Inr (Some pandas_data_updated), self1))))"

definition update_pandas_data ::
  "'v env \<Rightarrow> 'v thetadata \<Rightarrow> asset_arg \<Rightarrow> asset option \<Rightarrow> int \<Rightarrow> string option
     \<Rightarrow> datetime option \<Rightarrow> (error + (key \<rightharpoonup> 'v cache_entry) option) \<times> 'v thetadata" where
  "update_pandas_data env self a quote len timestep start_dt =
     (case separate a quote of (asset_separated, quote_asset) \<Rightarrow>
       (case get_start_datetime_and_ts_unit env self len timestep start_dt START_BUFFER of
          Inl e \<Rightarrow> (Inl e, self)
        | Inr (start_datetime, ts_unit) \<Rightarrow>
            (case check_cache self (asset_separated, quote_asset) start_datetime ts_unit of
               Inl e \<Rightarrow> (Inl e, self)
             | Inr None \<Rightarrow> (Inr None, self)
             | Inr (Some ts_unit') \<Rightarrow>
                 download env self asset_separated quote_asset start_datetime ts_unit')))"

text \<open>\<open>_pull_source_symbol_bars\<close>: the refresh, the update of the cache, the inherited read.\<close>

definition pull_source_symbol_bars ::
  "'v env \<Rightarrow> 'v thetadata \<Rightarrow> asset_arg \<Rightarrow> int \<Rightarrow> string option \<Rightarrow> int option \<Rightarrow> asset option
     \<Rightarrow> string option \<Rightarrow> bool \<Rightarrow> (error + 'v bars option) \<times> 'v thetadata" where
  "pull_source_symbol_bars env self a len timestep timeshift quote exchange include_after_hours =
     (case update_pandas_data env self a quote len timestep None of
        (Inl e, self1) \<Rightarrow> (Inl e, self1)
      | (Inr update_opt, self1) \<Rightarrow>
          (let self2 = (case update_opt of
                          None \<Rightarrow> self1
                        | Some upd \<Rightarrow> self1\<lparr>pandas_data := pandas_data self1 ++ upd\<rparr>)
           in (super_pull_source_symbol_bars env self2 a len timestep timeshift quote exchange
                 include_after_hours, self2)))"

text \<open>
  \<open>get_last_price\<close> of \<open>ThetaDataBacktesting\<close>: every exception of the refresh is caught
  and logged, then the inherited lookup runs.
\<close>

definition ThetaData_get_last_price ::
  "'v env \<Rightarrow> 'v thetadata \<Rightarrow> asset_arg \<Rightarrow> string \<Rightarrow> asset option \<Rightarrow> string option
     \<Rightarrow> (error + 'v option) \<times> 'v thetadata" where
  "ThetaData_get_last_price env self a timestep quote exchange =
     (let dt = datetime_now self;
          self2 =
            (case update_pandas_data env self a quote 1 (Some timestep) (Some dt) of
               (Inl e, self1) \<Rightarrow> self1\<lparr>info_log := info_log self1 @ [LogLastPriceError e dt a]\<rparr>
             | (Inr None, self1) \<Rightarrow> self1
             | (Inr (Some upd), self1) \<Rightarrow>
                 self1\<lparr>pandas_data := pandas_data self1 ++ upd,
                       data_store := data_store self1 ++ upd\<rparr>)
      in (super_get_last_price env self2 a quote exchange, self2))"


section \<open>The required start time and the order of resolutions, as the spec words them\<close>

text \<open>
  Modelled from the spec: \<open>get_start_datetime_and_ts_unit\<close> is inherited from a base class
  that is not in the files at hand.  The spec (4.2, step 1) computes the required start
  time as the now-equivalent reference minus length times the resolution duration minus
  the safety buffer, and takes an explicit start time, when the caller supplies one,
  instead of the length-derived one.  Its resolutions are minute, hour and day; it gives
  no duration to any other timestep, and the model rejects such a timestep.
\<close>

definition resolution_duration :: "string \<Rightarrow> int option" where
  "resolution_duration ts =
     (if ts = ''minute'' then Some 60
      else if ts = ''hour'' then Some 3600
      else if ts = ''day'' then Some 86400
      else None)"

definition required_start :: "datetime \<Rightarrow> int \<Rightarrow> int \<Rightarrow> datetime option \<Rightarrow> int \<Rightarrow> datetime" where
  "required_start reference len dur start_dt buffer =
     (case start_dt of Some s \<Rightarrow> s | None \<Rightarrow> reference - len * dur - buffer)"

definition spec_get_start_datetime_and_ts_unit ::
  "'v thetadata \<Rightarrow> int \<Rightarrow> string option \<Rightarrow> datetime option \<Rightarrow> int \<Rightarrow> error + datetime \<times> string"
  where
  "spec_get_start_datetime_and_ts_unit self len timestep start_dt start_buffer =
     (case timestep of
        None \<Rightarrow> Inl ValueError
      | Some ts \<Rightarrow>
          (case resolution_duration ts of
             None \<Rightarrow> Inl ValueError
           | Some dur \<Rightarrow>
               Inr (required_start (datetime_now self) len dur start_dt start_buffer, ts)))"

text \<open>The spec orders the resolutions from finest to coarsest: minute, hour, day.\<close>

definition resolution_rank :: "string \<Rightarrow> nat option" where
  "resolution_rank ts =
     (if ts = ''minute'' then Some 0
      else if ts = ''hour'' then Some 1
      else if ts = ''day'' then Some 2
      else None)"

section \<open>Concrete inputs\<close>

definition SPY :: asset where
  "SPY = \<lparr>symbol = ''SPY'', asset_type = ''stock''\<rparr>"

definition AAPL :: asset where
  "AAPL = \<lparr>symbol = ''AAPL'', asset_type = ''stock''\<rparr>"

definition USD :: asset where
  "USD = \<lparr>symbol = ''USD'', asset_type = ''forex''\<rparr>"

text \<open>Three minute bars from midnight on, and the series the constructor builds of them.\<close>

definition table3 :: "int dataframe" where
  "table3 = \<lparr>df_index = [0, 60, 120], df_tz = None, df_columns = [(''Close'', [10, 11, 12])]\<rparr>"

definition series3 :: "int Data" where
  "series3 =
     \<lparr>data_strategy = PyNone, data_asset = SPY, data_symbol = ''SPY'',
      data_df = \<lparr>df_index = [0, 60, 120], df_tz = Some DEFAULT_PYTZ,
                 df_columns = [(''close'', [10, 11, 12])]\<rparr>,
      date_start = 0, date_end = 120,
      iter_index = [(0, 0), (60, 1), (120, 2)],
      datalines = [(''datetime'', Stamps [0, 60, 120]), (''close'', Vals [10, 11, 12])],
      attrs = [(''datetime'', Stamps [0, 60, 120]), (''close'', Vals [10, 11, 12])]\<rparr>"

text \<open>Two bars with the same timestamp 09:30, and the series built of them.\<close>

definition table_dup :: "int dataframe" where
  "table_dup =
     \<lparr>df_index = [34200, 34200], df_tz = None, df_columns = [(''close'', [10, 11])]\<rparr>"

definition series_dup :: "int Data" where
  "series_dup =
     \<lparr>data_strategy = PyNone, data_asset = SPY, data_symbol = ''SPY'',
      data_df = \<lparr>df_index = [34200, 34200], df_tz = Some DEFAULT_PYTZ,
                 df_columns = [(''close'', [10, 11])]\<rparr>,
      date_start = 34200, date_end = 34200,
      iter_index = [(34200, 0), (34200, 1)],
      datalines = [(''datetime'', Stamps [34200, 34200]), (''close'', Vals [10, 11])],
      attrs = [(''datetime'', Stamps [34200, 34200]), (''close'', Vals [10, 11])]\<rparr>"

text \<open>Three daily bars, newest first, and the series built of them.\<close>

definition table_desc :: "int dataframe" where
  "table_desc =
     \<lparr>df_index = [172800, 86400, 0], df_tz = None, df_columns = [(''close'', [12, 11, 10])]\<rparr>"

definition series_desc :: "int Data" where
  "series_desc =
     \<lparr>data_strategy = PyNone, data_asset = SPY, data_symbol = ''SPY'',
      data_df = \<lparr>df_index = [172800, 86400, 0], df_tz = Some DEFAULT_PYTZ,
                 df_columns = [(''close'', [12, 11, 10])]\<rparr>,
      date_start = 172800, date_end = 0,
      iter_index = [(172800, 0), (86400, 1), (0, 2)],
      datalines = [(''datetime'', Stamps [172800, 86400, 0]), (''close'', Vals [12, 11, 10])],
      attrs = [(''datetime'', Stamps [172800, 86400, 0]), (''close'', Vals [12, 11, 10])]\<rparr>"

text \<open>Four minute bars, and the series built of them.\<close>

definition table4 :: "int dataframe" where
  "table4 =
     \<lparr>df_index = [0, 60, 120, 180], df_tz = None, df_columns = [(''close'', [10, 11, 12, 13])]\<rparr>"

definition series4 :: "int Data" where
  "series4 =
     \<lparr>data_strategy = PyNone, data_asset = SPY, data_symbol = ''SPY'',
      data_df = \<lparr>df_index = [0, 60, 120, 180], df_tz = Some DEFAULT_PYTZ,
                 df_columns = [(''close'', [10, 11, 12, 13])]\<rparr>,
      date_start = 0, date_end = 180,
      iter_index = [(0, 0), (60, 1), (120, 2), (180, 3)],
      datalines = [(''datetime'', Stamps [0, 60, 120, 180]), (''close'', Vals [10, 11, 12, 13])],
      attrs = [(''datetime'', Stamps [0, 60, 120, 180]), (''close'', Vals [10, 11, 12, 13])]\<rparr>"

text \<open>
  The three minute bars with a second column, named \<open>iter_index\<close>, and the series built
  of them.
\<close>

definition table_clash :: "int dataframe" where
  "table_clash =
     \<lparr>df_index = [0, 60, 120], df_tz = None,
      df_columns = [(''close'', [10, 11, 12]), (''iter_index'', [1, 2, 3])]\<rparr>"

definition series_clash :: "int Data" where
  "series_clash =
     \<lparr>data_strategy = PyNone, data_asset = SPY, data_symbol = ''SPY'',
      data_df = \<lparr>df_index = [0, 60, 120], df_tz = Some DEFAULT_PYTZ,
                 df_columns = [(''close'', [10, 11, 12]), (''iter_index'', [1, 2, 3])]\<rparr>,
      date_start = 0, date_end = 120,
      iter_index = [(0, 0), (60, 1), (120, 2)],
      datalines = [(''datetime'', Stamps [0, 60, 120]), (''close'', Vals [10, 11, 12]),
                   (''iter_index'', Vals [1, 2, 3])],
      attrs = [(''datetime'', Stamps [0, 60, 120]), (''close'', Vals [10, 11, 12]),
               (''iter_index'', Vals [1, 2, 3])]\<rparr>"

text \<open>
  An environment around a given provider: the required start time as the spec words it,
  keys made of the asset of the series and USD, and inherited reads that find nothing.
\<close>

definition env_of :: "(price_request \<Rightarrow> error + int dataframe option) \<Rightarrow> int env" where
  "env_of provider =
     \<lparr>get_start_datetime_and_ts_unit = spec_get_start_datetime_and_ts_unit,
      get_price_data = provider,
      set_pandas_data_keys =
        (\<lambda>ds. Inr (map_of (map (\<lambda>d. ((data_asset (ce_data d), USD), d)) ds))),
      super_pull_source_symbol_bars = (\<lambda>self a len timestep timeshift quote exchange iah. Inr None),
      super_get_last_price = (\<lambda>self a quote exchange. Inr None)\<rparr>"

definition self_empty :: "int thetadata" where
  "self_empty =
     \<lparr>pandas_data = Map.empty, data_store = Map.empty, datetime_end = 1000000,
      datetime_now = 120, username = None, password = None, fetch_log = [], info_log = []\<rparr>"

definition self_cached :: "string \<Rightarrow> int thetadata" where
  "self_cached data_timestep =
     self_empty\<lparr>pandas_data :=
       [(SPY, USD) \<mapsto> \<lparr>ce_data = series3, ce_timestep = Some data_timestep\<rparr>]\<rparr>"

text \<open>The cache holding the series that is newest first, as daily bars.\<close>

definition self_cached_desc :: "int thetadata" where
  "self_cached_desc =
     self_empty\<lparr>pandas_data :=
       [(SPY, USD) \<mapsto> \<lparr>ce_data = series_desc, ce_timestep = Some ''day''\<rparr>]\<rparr>"

text \<open>
  Three providers: one that raises, one that has no data for any interval, and one that
  answers every request with the three minute bars.
\<close>

definition failing_provider :: "price_request \<Rightarrow> error + int dataframe option" where
  "failing_provider rq = Inl (PyException ''connection refused'' None)"

definition empty_provider :: "price_request \<Rightarrow> error + int dataframe option" where
  "empty_provider rq = Inr None"

definition table_provider :: "price_request \<Rightarrow> error + int dataframe option" where
  "table_provider rq = Inr (Some table3)"

section \<open>Slicing, lookup and construction\<close>

lemma slice_bound_nat: "slice_bound n (int k) = min k n"
  by (simp add: slice_bound_def)

lemma py_slice_nat: "py_slice xs (int s) (int e) = take (e - s) (drop s xs)"
  by (cases "s \<le> length xs"; cases "e \<le> length xs")
     (auto simp: py_slice_def slice_bound_nat Let_def min_def)

lemma py_slice_neg: "k < 0 \<Longrightarrow> py_slice xs 0 k = take (nat (int (length xs) + k)) xs"
  by (auto simp: py_slice_def slice_bound_def Let_def max_def add.commute)

lemma dataline_slice_nat: "dataline_slice dl (int s) (int e) = dataline_rows dl s e"
  by (cases dl) (simp_all add: py_slice_nat)

lemma dataline_slice_neg:
  "k < 0 \<Longrightarrow> dataline_slice dl 0 k = dataline_rows dl 0 (nat (int (dataline_length dl) + k))"
  by (cases dl) (simp_all add: py_slice_neg)

lemma int64_id: "- (2 ^ 63) \<le> x \<Longrightarrow> x < 2 ^ 63 \<Longrightarrow> int64 x = x"
  by (simp add: int64_def)

lemma sint64_range:
  fixes w :: "64 word"
  shows "- (2 ^ 63) \<le> sint w" "sint w < 2 ^ 63"
  using sint_ge [of w] sint_lt [of w] by simp_all

lemma reads_intact_iff:
  "reads_intact d \<longleftrightarrow>
     \<not> named ''get_bars'' (attrs d) \<and> \<not> named ''get_iter_count'' (attrs d)
     \<and> \<not> named ''iter_index'' (attrs d) \<and> \<not> named ''datalines'' (attrs d)"
  by (simp add: reads_intact_def get_bars_reads_def)

lemma filter_zip_distinct:
  "distinct xs \<Longrightarrow> i < length xs \<Longrightarrow> i < length ys \<Longrightarrow>
     map snd (filter (\<lambda>(t, j). t = xs ! i) (zip xs ys)) = [ys ! i]"
proof (induction xs arbitrary: i ys)
  case Nil
  then show ?case by simp
next
  case (Cons x xs)
  then obtain y ys' where ys: "ys = y # ys'" by (cases ys) auto
  show ?case
  proof (cases i)
    case 0
    have "filter (\<lambda>(t, j). t = x) (zip xs ys') = []"
      using Cons.prems(1) by (auto simp: filter_empty_conv dest: set_zip_leftD)
    with 0 show ?thesis by (simp add: ys)
  next
    case (Suc i')
    with Cons.prems ys have "x \<noteq> xs ! i'" "i' < length xs" "distinct xs" "i' < length ys'"
      by auto
    with Cons.IH [of i' ys'] Suc show ?thesis by (simp add: ys)
  qed
qed

lemma get_iter_count_unique:
  assumes "iter_index d = zip idx [0..<length idx]" "distinct idx" "i < length idx"
    and "\<not> named ''iter_index'' (attrs d)"
  shows "get_iter_count d (idx ! i) = Inr (Scalar i)"
  using filter_zip_distinct [OF assms(2,3), of "[0..<length idx]"] assms(1,3,4)
  by (simp add: get_iter_count_def)

lemma columns_index [simp]: "df_index (columns df) = df_index df" "df_tz (columns df) = df_tz df"
  by (simp_all add: columns_def)

lemma rows_between_index [simp]:
  "df_index (rows_between lo hi df) = take (hi - lo) (drop lo (df_index df))"
  "df_tz (rows_between lo hi df) = df_tz df"
  by (simp_all add: rows_between_def)

lemma rows_where_index [simp]:
  "df_index (rows_where P df) = filter P (df_index df)"
  "df_tz (rows_where P df) = df_tz df"
  by (simp_all add: rows_where_def)

lemma between_time_tz [simp]: "df_tz (between_time df s e) = df_tz df"
  by (simp add: between_time_def)

lemma between_time_index: "\<exists>P. df_index (between_time df s e) = filter P (df_index df)"
  by (auto simp: between_time_def)

lemma rectangular_columns: "rectangular df \<Longrightarrow> rectangular (columns df)"
  by (auto simp: rectangular_def columns_def list_all_iff)

lemma rectangular_rows_between: "rectangular df \<Longrightarrow> rectangular (rows_between lo hi df)"
  by (auto simp: rectangular_def rows_between_def list_all_iff)

lemma length_filter_zip:
  "length vs = length ts \<Longrightarrow>
     length (filter (\<lambda>(t, v). P t) (zip ts vs)) = length (filter P ts)"
  by (induction ts vs rule: list_induct2') auto

lemma rectangular_rows_where: "rectangular df \<Longrightarrow> rectangular (rows_where P df)"
  by (auto simp: rectangular_def rows_where_def list_all_iff length_filter_zip)

lemma rectangular_between_time: "rectangular df \<Longrightarrow> rectangular (between_time df s e)"
  by (simp add: between_time_def rectangular_rows_where)

lemma trim_data_facts:
  assumes "trim_data df s e = Inr df'"
  shows "\<exists>lo hi P. df_index df' = filter P (take (hi - lo) (drop lo (df_index df)))"
    and "df_tz df' = df_tz df"
    and "rectangular df \<Longrightarrow> rectangular df'"
proof -
  from assms obtain lo hi where
    df': "df' = between_time (rows_between lo hi df) (time_of_day s) (time_of_day e)"
    by (auto simp: trim_data_def loc_slice_def split: sum.splits prod.splits)
  from between_time_index [of "rows_between lo hi df" "time_of_day s" "time_of_day e"]
  show "\<exists>lo hi P. df_index df' = filter P (take (hi - lo) (drop lo (df_index df)))"
    unfolding df' by auto
  show "df_tz df' = df_tz df" by (simp add: df')
  show "rectangular df \<Longrightarrow> rectangular df'"
    by (simp add: df' rectangular_between_time rectangular_rows_between)
qed

lemma set_date_format_facts:
  assumes "set_date_format df = Inr df'"
  shows "df_index df' = df_index df" "df_tz df' = Some DEFAULT_PYTZ" "df_tz df = None"
    "df_columns df' = df_columns df"
  using assms by (auto simp: set_date_format_def split: option.splits)

lemma Data_init_cases:
  assumes "Data_init strat a df dstart dend timestep cols = Inr d"
  obtains df1 s e where
    "set_date_format (columns df) = Inr df1"
    "set_dates df1 dstart dend = Inr (s, e)"
    "trim_data df1 s e = Inr (data_df d)"
    "to_datalines (data_df d) = Inr (datalines d, attrs d)"
    "iter_index d = zip (df_index (data_df d)) [0..<length (df_index (data_df d))]"
    "date_start d = s" "date_end d = e" "data_asset d = a" "data_symbol d = symbol a"
  using assms unfolding Data_init_def
  by (auto split: sum.splits prod.splits)

lemma dict_update_keys: "fst ` set (dict_update k v ps) = insert k (fst ` set ps)"
  by (induction ps) auto

lemma add_datalines_keys:
  "add_datalines df cs st = Inr st' \<Longrightarrow> fst ` set (fst st) \<subseteq> fst ` set (fst st')"
proof (induction df cs st rule: add_datalines.induct)
  case (1 df dls ats)
  then show ?case by simp
next
  case (2 df column vs cs dls ats)
  then show ?case by (auto simp: dict_update_keys split: if_splits)
qed

lemma to_datalines_datetime:
  assumes "to_datalines df = Inr (dls, ats)"
  shows "\<exists>dl. map_of dls ''datetime'' = Some dl"
proof -
  have "''datetime'' \<in> fst ` set dls"
    using add_datalines_keys [OF assms [unfolded to_datalines_def]] by auto
  then show ?thesis
    by (metis map_of_eq_None_iff not_Some_eq)
qed

lemma dict_update_pred:
  "list_all (\<lambda>p. Q (snd p)) ps \<Longrightarrow> Q v \<Longrightarrow> list_all (\<lambda>p. Q (snd p)) (dict_update k v ps)"
  by (induction ps) auto

lemma add_datalines_pred:
  "add_datalines df cs st = Inr st' \<Longrightarrow> list_all (\<lambda>p. Q (snd p)) (fst st) \<Longrightarrow>
     list_all (\<lambda>c. Q (Vals (snd c))) cs \<Longrightarrow> list_all (\<lambda>p. Q (snd p)) (fst st')"
proof (induction df cs st rule: add_datalines.induct)
  case (1 df dls ats)
  then show ?case by simp
next
  case (2 df column vs cs dls ats)
  then show ?case by (auto simp: dict_update_pred split: if_splits)
qed

lemma to_datalines_length:
  assumes "to_datalines df = Inr (dls, ats)" "rectangular df"
  shows "list_all (\<lambda>p. dataline_length (snd p) = length (df_index df)) dls"
  using add_datalines_pred [OF assms(1) [unfolded to_datalines_def],
      where Q = "\<lambda>dl. dataline_length dl = length (df_index df)"] assms(2)
  by (simp add: rectangular_def)

lemma Data_init_rectangular:
  assumes "Data_init strat a df dstart dend timestep cols = Inr d" "rectangular df"
  shows "rectangular (data_df d)"
proof -
  from assms(1) obtain df1 s e where
    1: "set_date_format (columns df) = Inr df1" and 2: "trim_data df1 s e = Inr (data_df d)"
    by (rule Data_init_cases)
  have "rectangular df1"
    using rectangular_columns [OF assms(2)] set_date_format_facts [OF 1]
    by (simp add: rectangular_def)
  with trim_data_facts(3) [OF 2] show ?thesis by simp
qed

lemma Data_init_datalines_length:
  assumes "Data_init strat a df0 dstart dend tstep cols = Inr d" "rectangular df0"
  shows "list_all (\<lambda>p. dataline_length (snd p) = length (df_index (data_df d))) (datalines d)"
proof -
  have "to_datalines (data_df d) = Inr (datalines d, attrs d)"
    using assms(1) by (rule Data_init_cases)
  then show ?thesis
    using Data_init_rectangular [OF assms] by (rule to_datalines_length)
qed

lemma add_datalines_other_key:
  "add_datalines df cs st = Inr st' \<Longrightarrow> k \<notin> fst ` set cs \<Longrightarrow>
     map_of (fst st') k = map_of (fst st) k"
proof (induction df cs st rule: add_datalines.induct)
  case (1 df dls ats)
  then show ?case by simp
next
  case (2 df column vs cs dls ats)
  have "map_of (dict_update column (Vals vs) dls) k = map_of dls k" if "k \<noteq> column"
    using that by (induction dls) auto
  with 2 show ?case by (auto split: if_splits)
qed

lemma to_datalines_stamps:
  assumes "to_datalines df = Inr (dls, ats)" "''datetime'' \<notin> fst ` set (df_columns df)"
  shows "map_of dls ''datetime'' = Some (Stamps (df_index df))"
  using add_datalines_other_key [OF assms(1) [unfolded to_datalines_def] assms(2)] by simp

lemma series3_init:
  "Data_init PyNone SPY table3 PyNone PyNone (PyStr ''minute'') PyNone = Inr series3"
  by code_simp

lemma series3_facts:
  "sorted_wrt (<) (df_index (data_df series3))" "reads_intact series3"
  "int (length (df_index (data_df series3))) < 2 ^ 63"
  "''datetime'' \<notin> fst ` set (df_columns (data_df series3))"
  "df_index (data_df series3) = [0, 60, 120]"
  by (simp_all add: series3_def reads_intact_iff named_def)

lemma series_dup_init:
  "Data_init PyNone SPY table_dup PyNone PyNone (PyStr ''minute'') PyNone = Inr series_dup"
  by code_simp

lemma series_desc_init:
  "Data_init PyNone SPY table_desc PyNone PyNone (PyStr ''day'') PyNone = Inr series_desc"
  by code_simp

lemma series4_init:
  "Data_init PyNone SPY table4 PyNone PyNone (PyStr ''minute'') PyNone = Inr series4"
  by code_simp

lemma series_clash_init:
  "Data_init PyNone SPY table_clash PyNone PyNone (PyStr ''minute'') PyNone = Inr series_clash"
  by code_simp

section \<open>The index after construction\<close>

text \<open>
  Claim C7, as amended.  The constructor neither sorts nor removes duplicates: it keeps
  the rows of its input in their order and drops those outside the bounds.  So for every
  table whose index is strictly increasing, the index of the series that the constructor
  returns is strictly increasing; it is timezone-aware, with the default timezone, and
  the index of the input was naive (an aware index makes \<open>set_date_format\<close> raise
  TypeError).  \<open>get_iter_count\<close> and \<open>get_bars\<close> assign nothing to the series, which is why
  they are functions of the series that return no new series.
\<close>

theorem Data_init_preserves_order:
  assumes "Data_init strat a df0 dstart dend tstep cols = Inr d"
    and "sorted_wrt (<) (df_index df0)"
  shows "sorted_wrt (<) (df_index (data_df d))
    \<and> df_tz (data_df d) = Some DEFAULT_PYTZ \<and> df_tz df0 = None"
proof -
  from assms(1) obtain df1 s e where
    1: "set_date_format (columns df0) = Inr df1" and 2: "trim_data df1 s e = Inr (data_df d)"
    by (rule Data_init_cases)
  note f = set_date_format_facts [OF 1]
  from trim_data_facts(1) [OF 2] obtain lo hi P where
    idx: "df_index (data_df d) = filter P (take (hi - lo) (drop lo (df_index df1)))" by blast
  have "sorted_wrt (<) (df_index df1)"
    using assms(2) f(1) by simp
  then have "sorted_wrt (<) (df_index (data_df d))"
    unfolding idx by (intro sorted_wrt_filter sorted_wrt_take sorted_wrt_drop)
  moreover have "df_tz (data_df d) = Some DEFAULT_PYTZ"
    using trim_data_facts(2) [OF 2] f(2) by simp
  moreover have "df_tz df0 = None"
    using f(3) by simp
  ultimately show ?thesis by simp
qed

text \<open>The three minute bars satisfy the hypotheses.\<close>

theorem Data_init_preserves_order_witness:
  "Data_init PyNone SPY table3 PyNone PyNone (PyStr ''minute'') PyNone = Inr series3
   \<and> sorted_wrt (<) (df_index table3)
   \<and> sorted_wrt (<) (df_index (data_df series3))
   \<and> df_tz (data_df series3) = Some DEFAULT_PYTZ \<and> df_tz table3 = None"
proof -
  have h1: "Data_init PyNone SPY table3 PyNone PyNone (PyStr ''minute'') PyNone = Inr series3"
    by (rule series3_init)
  have h2: "sorted_wrt (<) (df_index table3)" by (simp add: table3_def)
  from Data_init_preserves_order [OF h1 h2] h1 h2 show ?thesis by simp
qed

text \<open>
  Claim C7 as it was stated fails on two tables that the constructor accepts: one with
  a timestamp that occurs twice, one with its rows newest first.  Both come out as they
  went in, and neither index is strictly increasing.
\<close>

theorem Data_init_keeps_order_of_input:
  "Data_init PyNone SPY table_dup PyNone PyNone (PyStr ''minute'') PyNone = Inr series_dup
   \<and> \<not> sorted_wrt (<) (df_index (data_df series_dup))
   \<and> Data_init PyNone SPY table_desc PyNone PyNone (PyStr ''day'') PyNone = Inr series_desc
   \<and> \<not> sorted_wrt (<) (df_index (data_df series_desc))"
  by (simp add: series_desc_init series_dup_init) (simp add: series_desc_def series_dup_def)

section \<open>Windows\<close>

lemma map_of_map_snd:
  "map_of (map (\<lambda>(k, v). (k, f v)) ps) x = map_option f (map_of ps x)"
  by (induction ps) auto

lemma window_rows_ok:
  assumes "map_of (datalines d) ''datetime'' = Some dl"
  shows "\<exists>b. window_rows d s e = Inr b \<and> bars_index b = dataline_rows dl s e"
  by (simp add: window_rows_def set_index_def map_of_map_snd assms)

lemma get_bars_Scalar:
  assumes "get_iter_count d dt = Inr (Scalar i)" "reads_intact d"
    and "int64 (int64 (int i + 1) - sint timeshift) = e"
    and "int64 (e - sint len) = s0"
  shows "get_bars d dt len timestep timeshift =
     set_index ''datetime''
       (map (\<lambda>(dl_name, dl). (dl_name, dataline_slice dl (max 0 s0) e)) (datalines d))"
  using assms by (simp add: get_bars_def reads_intact_iff Let_def max_def)

lemma get_bars_nonneg:
  assumes "get_iter_count d dt = Inr (Scalar i)" "reads_intact d"
    and "int64 (int64 (int i + 1) - sint timeshift) = e"
    and "int64 (e - sint len) = s0"
    and "0 \<le> e"
  shows "get_bars d dt len timestep timeshift = window_rows d (nat s0) (nat e)"
proof -
  have "max 0 s0 = int (nat s0)" by simp
  moreover have "e = int (nat e)" using assms(5) by simp
  ultimately show ?thesis
    unfolding get_bars_Scalar [OF assms(1-4)] window_rows_def
    by (metis dataline_slice_nat)
qed

lemma get_bars_neg:
  assumes "get_iter_count d dt = Inr (Scalar i)" "reads_intact d"
    and "int64 (int64 (int i + 1) - sint timeshift) = e"
    and "int64 (e - sint len) = s0"
    and "e < 0" "s0 \<le> 0"
    and "list_all (\<lambda>p. dataline_length (snd p) = n) (datalines d)"
  shows "get_bars d dt len timestep timeshift = window_rows d 0 (nat (int n + e))"
proof -
  have m: "max 0 s0 = 0"
    using assms(6) by simp
  have "map (\<lambda>(dl_name, dl). (dl_name, dataline_slice dl 0 e)) (datalines d)
      = map (\<lambda>(dl_name, dl). (dl_name, dataline_rows dl 0 (nat (int n + e)))) (datalines d)"
    using assms(5,7) by (auto simp: list_all_iff dataline_slice_neg)
  then show ?thesis
    by (simp only: get_bars_Scalar [OF assms(1-4)] window_rows_def m)
qed

lemma sorted_wrt_less_filter_le:
  fixes xs :: "int list"
  assumes "sorted_wrt (<) xs" "i < length xs"
  shows "filter (\<lambda>t. t \<le> xs ! i) xs = take (Suc i) xs"
proof -
  have 1: "\<forall>t \<in> set (take (Suc i) xs). t \<le> xs ! i"
  proof
    fix t assume "t \<in> set (take (Suc i) xs)"
    then obtain j where "j < Suc i" "j < length xs" "t = xs ! j"
      by (auto simp: in_set_conv_nth)
    then show "t \<le> xs ! i"
      using sorted_wrt_nth_less [OF assms(1), of j i] assms(2) by (cases "j = i") auto
  qed
  have 2: "\<forall>t \<in> set (drop (Suc i) xs). \<not> t \<le> xs ! i"
  proof
    fix t assume "t \<in> set (drop (Suc i) xs)"
    then obtain j where j: "j < length (drop (Suc i) xs)" "t = drop (Suc i) xs ! j"
      by (metis in_set_conv_nth)
    then have "Suc i + j < length xs" "t = xs ! (Suc i + j)"
      by simp_all
    then show "\<not> t \<le> xs ! i"
      using sorted_wrt_nth_less [OF assms(1), of i "Suc i + j"] by auto
  qed
  have "filter (\<lambda>t. t \<le> xs ! i) xs
      = filter (\<lambda>t. t \<le> xs ! i) (take (Suc i) xs) @ filter (\<lambda>t. t \<le> xs ! i) (drop (Suc i) xs)"
    by (metis append_take_drop_id filter_append)
  with 1 2 show ?thesis by (simp add: filter_empty_conv)
qed

lemma Data_init_get_iter_count:
  assumes "Data_init strat a df0 dstart dend tstep cols = Inr d"
    and "sorted_wrt (<) (df_index (data_df d))"
    and "i < length (df_index (data_df d))"
    and "reads_intact d"
  shows "get_iter_count d (df_index (data_df d) ! i) = Inr (Scalar i)"
proof -
  have "distinct (df_index (data_df d))"
    using assms(2) strict_sorted_iff by blast
  moreover have "iter_index d = zip (df_index (data_df d)) [0..<length (df_index (data_df d))]"
    using assms(1) by (rule Data_init_cases)
  moreover have "\<not> named ''iter_index'' (attrs d)"
    using assms(4) by (simp add: reads_intact_iff)
  ultimately show ?thesis
    using assms(3) by (simp add: get_iter_count_unique)
qed

lemma Data_init_window_rows:
  assumes "Data_init strat a df0 dstart dend tstep cols = Inr d"
  shows "\<exists>b. window_rows d s e = Inr b \<and>
           (''datetime'' \<notin> fst ` set (df_columns (data_df d)) \<longrightarrow>
              bars_index b = Stamps (take (e - s) (drop s (df_index (data_df d)))))"
proof -
  have td: "to_datalines (data_df d) = Inr (datalines d, attrs d)"
    using assms by (rule Data_init_cases)
  from to_datalines_datetime [OF td] obtain dl where
    dl: "map_of (datalines d) ''datetime'' = Some dl" by blast
  from window_rows_ok [OF dl, of s e] obtain b where
    b: "window_rows d s e = Inr b" "bars_index b = dataline_rows dl s e" by blast
  have "bars_index b = Stamps (take (e - s) (drop s (df_index (data_df d))))"
    if "''datetime'' \<notin> fst ` set (df_columns (data_df d))"
    using to_datalines_stamps [OF td that] dl b(2) by simp
  with b(1) show ?thesis by blast
qed

lemma get_bars_clash_raises:
  "get_bars series_clash dt len ts shift = Inl IndexError"
  by (simp add: get_bars_def get_iter_count_def series_clash_def named_def)

lemma get_bars_series4_overflow:
  "get_bars series4 0 9223372036854775807 ''minute'' 3
     = Inr \<lparr>bars_index = Stamps [], bars_columns = [(''close'', Vals [])]\<rparr>"
proof -
  have n: "\<not> named x (attrs series4)" if "x \<noteq> ''datetime''" "x \<noteq> ''close''" for x
    using that by (simp add: series4_def named_def)
  have g: "get_iter_count series4 0 = Inr (Scalar 0)"
    by (simp add: get_iter_count_def n) (simp add: series4_def)
  have e: "int64 1 = 1" "int64 (- 2) = - 2"
    "int64 (- 9223372036854775809) = 9223372036854775807"
    by (simp_all add: int64_def)
  have d: "datalines series4
      = [(''datetime'', Stamps [0, 60, 120, 180]), (''close'', Vals [10, 11, 12, 13])]"
    by (simp add: series4_def)
  show ?thesis
    by (simp add: get_bars_def n g Let_def e d set_index_def py_slice_def slice_bound_def)
qed

lemma get_bars_desc_first:
  "get_bars series_desc 172800 1 ''day'' 2
       = Inr \<lparr>bars_index = Stamps [172800, 86400], bars_columns = [(''close'', Vals [12, 11])]\<rparr>"
  by code_simp

lemma get_bars_desc_middle:
  "get_bars series_desc 86400 2 ''day'' 0
       = Inr \<lparr>bars_index = Stamps [172800, 86400], bars_columns = [(''close'', Vals [12, 11])]\<rparr>"
  by code_simp

text \<open>
  Claim C1, as amended.  Take a series built by the constructor whose index is strictly
  increasing, of fewer than \<open>2^63\<close> rows, and in which no column has taken the place of a
  name that \<open>get_bars\<close> reads (\<open>get_bars\<close>, \<open>get_iter_count\<close>, \<open>iter_index\<close>, \<open>datalines\<close>).  For
  every timestamp \<open>ts\<close> of the index and every length of at least 1, \<open>get_bars\<close> with
  timeshift 0 returns the rows \<open>s \<le> j < e\<close> of the series, for some \<open>s\<close> and \<open>e\<close>: each of
  these rows has a timestamp of at most \<open>ts\<close>, there are at most \<open>len\<close> of them, and there
  are fewer than \<open>len\<close> only when fewer than \<open>len\<close> rows of the series lie at or before
  \<open>ts\<close>.  Unless a column of the table is itself named datetime, the index of the returned
  table is the list of these timestamps.
\<close>

theorem get_bars_no_lookahead:
  assumes "Data_init strat a df0 dstart dend tstep cols = Inr d"
    and "sorted_wrt (<) (df_index (data_df d))"
    and "reads_intact d"
    and "int (length (df_index (data_df d))) < 2 ^ 63"
    and "ts \<in> set (df_index (data_df d))"
    and "1 \<le> sint len"
  shows "\<exists>s e b. get_bars d ts len timestep 0 = Inr b \<and> window_rows d s e = Inr b
           \<and> s \<le> e \<and> e \<le> length (df_index (data_df d))
           \<and> (\<forall>j. s \<le> j \<and> j < e \<longrightarrow> df_index (data_df d) ! j \<le> ts)
           \<and> int (e - s) \<le> sint len
           \<and> (int (e - s) < sint len \<longrightarrow>
                int (length (filter (\<lambda>t. t \<le> ts) (df_index (data_df d)))) < sint len)
           \<and> (''datetime'' \<notin> fst ` set (df_columns (data_df d)) \<longrightarrow>
                bars_index b = Stamps (take (e - s) (drop s (df_index (data_df d)))))"
proof -
  let ?idx = "df_index (data_df d)"
  from assms(5) obtain i where i: "i < length ?idx" "?idx ! i = ts"
    by (auto simp: in_set_conv_nth)
  let ?s = "nat (int i + 1 - sint len)"
  have gic: "get_iter_count d ts = Inr (Scalar i)"
    using Data_init_get_iter_count [OF assms(1,2) i(1) assms(3)] i(2) by simp
  have e: "int64 (int64 (int i + 1) - sint (0 :: 64 word)) = int i + 1"
    using i(1) assms(4) by (simp add: int64_id)
  have s0: "int64 (int i + 1 - sint len) = int i + 1 - sint len"
    using i(1) assms(4,6) sint64_range [of len] by (intro int64_id) auto
  have gb: "get_bars d ts len timestep 0 = window_rows d ?s (Suc i)"
    using get_bars_nonneg [OF gic assms(3) e s0, of timestep] by (simp add: nat_add_distrib)
  from Data_init_window_rows [OF assms(1), of ?s "Suc i"] obtain b where
    b: "window_rows d ?s (Suc i) = Inr b"
       "''datetime'' \<notin> fst ` set (df_columns (data_df d)) \<longrightarrow>
          bars_index b = Stamps (take (Suc i - ?s) (drop ?s ?idx))"
    by blast
  have le: "\<forall>j. ?s \<le> j \<and> j < Suc i \<longrightarrow> ?idx ! j \<le> ts"
  proof (intro allI impI)
    fix j assume "?s \<le> j \<and> j < Suc i"
    then show "?idx ! j \<le> ts"
      using sorted_wrt_nth_less [OF assms(2), of j i] i by (cases "j = i") auto
  qed
  have cnt: "length (filter (\<lambda>t. t \<le> ts) ?idx) = Suc i"
    using sorted_wrt_less_filter_le [OF assms(2) i(1)] i by simp
  have "?s \<le> Suc i" "Suc i \<le> length ?idx" "int (Suc i - ?s) \<le> sint len"
    using i(1) assms(6) by auto
  moreover have "int (Suc i - ?s) < sint len \<longrightarrow>
      int (length (filter (\<lambda>t. t \<le> ts) ?idx)) < sint len"
    unfolding cnt by auto
  ultimately show ?thesis
    using gb b le by (intro exI [of _ ?s] exI [of _ "Suc i"] exI [of _ b]) simp
qed

text \<open>Two bars as of the second of the three minute bars.\<close>

theorem get_bars_no_lookahead_witness:
  "Data_init PyNone SPY table3 PyNone PyNone (PyStr ''minute'') PyNone = Inr series3
   \<and> sorted_wrt (<) (df_index (data_df series3))
   \<and> reads_intact series3
   \<and> int (length (df_index (data_df series3))) < 2 ^ 63
   \<and> 60 \<in> set (df_index (data_df series3))
   \<and> 1 \<le> sint (2 :: 64 word)
   \<and> (\<exists>s e b. get_bars series3 60 2 ''minute'' 0 = Inr b \<and> window_rows series3 s e = Inr b
           \<and> s \<le> e \<and> e \<le> 3 \<and> int (e - s) \<le> 2
           \<and> bars_index b = Stamps (take (e - s) (drop s [0, 60, 120])))"
proof -
  have h1: "Data_init PyNone SPY table3 PyNone PyNone (PyStr ''minute'') PyNone = Inr series3"
    by (rule series3_init)
  note h2 = series3_facts(1) and h3 = series3_facts(2) and h4 = series3_facts(3)
  have h5: "60 \<in> set (df_index (data_df series3))"
    by (simp add: series3_facts(5))
  have h6: "1 \<le> sint (2 :: 64 word)" by simp
  from get_bars_no_lookahead [OF h1 h2 h3 h4 h5 h6, of "''minute''"] series3_facts(4)
  have "\<exists>s e b. get_bars series3 60 2 ''minute'' 0 = Inr b \<and> window_rows series3 s e = Inr b
           \<and> s \<le> e \<and> e \<le> 3 \<and> int (e - s) \<le> 2
           \<and> bars_index b = Stamps (take (e - s) (drop s [0, 60, 120]))"
    unfolding series3_facts(5) by (elim exE conjE) (intro exI conjI, simp_all)
  with h1 h2 h3 h4 h5 h6 show ?thesis by blast
qed

text \<open>
  Claim C1 as it was stated, for every constructed series, fails in two ways.  On the
  series built of the table that is newest first, the window of two bars as of the middle
  day holds the bar of the day after.  On the series built of a table with a column
  named \<open>iter_index\<close>, whose index is strictly increasing, \<open>get_bars\<close> returns no window: the
  column has taken the place of the lookup table, and the lookup raises IndexError.
\<close>

theorem get_bars_newest_first_looks_ahead:
  "Data_init PyNone SPY table_desc PyNone PyNone (PyStr ''day'') PyNone = Inr series_desc
   \<and> 86400 \<in> set (df_index (data_df series_desc))
   \<and> get_bars series_desc 86400 2 ''day'' 0
       = Inr \<lparr>bars_index = Stamps [172800, 86400], bars_columns = [(''close'', Vals [12, 11])]\<rparr>
   \<and> (86400::int) < 172800
   \<and> Data_init PyNone SPY table_clash PyNone PyNone (PyStr ''minute'') PyNone = Inr series_clash
   \<and> sorted_wrt (<) (df_index (data_df series_clash))
   \<and> 60 \<in> set (df_index (data_df series_clash))
   \<and> get_bars series_clash 60 2 ''minute'' 0 = Inl IndexError"
  by (simp add: series_desc_init series_clash_init get_bars_desc_middle get_bars_clash_raises)
     (simp add: series_desc_def series_clash_def)

text \<open>
  Claim C2 at the first of the three minute bars, with length 1 and timeshift 2:
  \<open>end_row\<close> is \<open>-1\<close> and \<open>start_row\<close> is clamped to 0.  The rows \<open>0 \<le> j < -1\<close> are none, and a
  window clamped on the left is to be shorter than the length; the code returns the two
  rows \<open>[0:-1]\<close>, the second of which is later than the timestamp asked for.
\<close>

theorem get_bars_timeshift_past_first_row:
  "Data_init PyNone SPY table3 PyNone PyNone (PyStr ''minute'') PyNone = Inr series3
   \<and> get_bars series3 0 1 ''minute'' 2 =
       Inr \<lparr>bars_index = Stamps [0, 60], bars_columns = [(''close'', Vals [10, 11])]\<rparr>"
  by code_simp

text \<open>
  Claim C10, as amended.  Take a series built by the constructor of a rectangular table,
  with \<open>n < 2^63\<close> rows and a strictly increasing index, in which no column has taken the
  place of a name that \<open>get_bars\<close> reads, a timestamp \<open>ts\<close> at row \<open>i\<close>, and a length of at
  least 1 that is small enough for \<open>end_row - length\<close> not to fall below \<open>-2^63\<close>.  When the
  timeshift exceeds \<open>i + 1\<close>, \<open>end_row\<close> is negative and the slice counts it from the end,
  so \<open>get_bars\<close> returns the rows \<open>0 \<le> j < n + end_row\<close> (none when that bound is not
  positive).  When moreover the timeshift is less than \<open>n\<close>, the window has
  \<open>n + i + 1 - timeshift\<close> rows, whatever the length: it is not empty, it holds row \<open>i + 1\<close>,
  whose timestamp is later than \<open>ts\<close>, and it has more than \<open>len\<close> rows whenever
  \<open>len \<le> i + 1\<close>.
\<close>

theorem get_bars_negative_end_row:
  assumes "Data_init strat a df0 dstart dend tstep cols = Inr d"
    and "rectangular df0"
    and "sorted_wrt (<) (df_index (data_df d))"
    and "reads_intact d"
    and "int (length (df_index (data_df d))) < 2 ^ 63"
    and "i < length (df_index (data_df d))"
    and "df_index (data_df d) ! i = ts"
    and "1 \<le> sint len"
    and "int i + 1 < sint timeshift"
    and "- (2 ^ 63) \<le> int i + 1 - sint timeshift - sint len"
  shows "int i + 1 - sint timeshift < 0
    \<and> get_bars d ts len timestep timeshift =
        window_rows d 0 (nat (int (length (df_index (data_df d))) + (int i + 1 - sint timeshift)))
    \<and> (sint timeshift < int (length (df_index (data_df d))) \<longrightarrow>
         (\<exists>b e. get_bars d ts len timestep timeshift = Inr b \<and> window_rows d 0 e = Inr b
            \<and> int e = int (length (df_index (data_df d))) + int i + 1 - sint timeshift
            \<and> Suc i < e \<and> e \<le> length (df_index (data_df d))
            \<and> ts < df_index (data_df d) ! Suc i
            \<and> (sint len \<le> int i + 1 \<longrightarrow> sint len < int e)
            \<and> (''datetime'' \<notin> fst ` set (df_columns (data_df d)) \<longrightarrow>
                 bars_index b = Stamps (take e (df_index (data_df d))))))"
proof -
  let ?idx = "df_index (data_df d)"
  let ?n = "length ?idx"
  let ?er = "int i + 1 - sint timeshift"
  let ?e = "nat (int ?n + ?er)"
  have gic: "get_iter_count d ts = Inr (Scalar i)"
    using Data_init_get_iter_count [OF assms(1,3,6,4)] assms(7) by simp
  have e: "int64 (int64 (int i + 1) - sint timeshift) = ?er"
    using assms(5,6,9) sint64_range [of timeshift] by (simp add: int64_id)
  have s0: "int64 (?er - sint len) = ?er - sint len"
    using assms(8,9,10) by (intro int64_id) auto
  have gb: "get_bars d ts len timestep timeshift = window_rows d 0 ?e"
    using get_bars_neg [OF gic assms(4) e s0 _ _ Data_init_datalines_length [OF assms(1,2)]]
      assms(8,9)
    by simp
  have part: "\<exists>b e. get_bars d ts len timestep timeshift = Inr b \<and> window_rows d 0 e = Inr b
            \<and> int e = int ?n + int i + 1 - sint timeshift
            \<and> Suc i < e \<and> e \<le> ?n
            \<and> ts < ?idx ! Suc i
            \<and> (sint len \<le> int i + 1 \<longrightarrow> sint len < int e)
            \<and> (''datetime'' \<notin> fst ` set (df_columns (data_df d)) \<longrightarrow>
                 bars_index b = Stamps (take e ?idx))"
    if lt: "sint timeshift < int ?n"
  proof -
    from Data_init_window_rows [OF assms(1), of 0 ?e] obtain b where
      b: "window_rows d 0 ?e = Inr b"
         "''datetime'' \<notin> fst ` set (df_columns (data_df d)) \<longrightarrow>
            bars_index b = Stamps (take ?e ?idx)"
      by auto
    have e: "int ?e = int ?n + int i + 1 - sint timeshift" "Suc i < ?e" "?e \<le> ?n"
      using lt assms(9) by auto
    then have "Suc i < ?n" by simp
    then have ts: "ts < ?idx ! Suc i"
      using sorted_wrt_nth_less [OF assms(3), of i "Suc i"] assms(7) by simp
    have l: "sint len \<le> int i + 1 \<longrightarrow> sint len < int ?e"
      using e(2) by auto
    have g: "get_bars d ts len timestep timeshift = Inr b"
      using gb b(1) by simp
    show ?thesis
      using g b e ts l by blast
  qed
  show ?thesis
    using assms(9) gb part by simp
qed

text \<open>Length 1 and timeshift 2 as of the first of the three minute bars: two rows.\<close>

theorem get_bars_negative_end_row_witness:
  "Data_init PyNone SPY table3 PyNone PyNone (PyStr ''minute'') PyNone = Inr series3
   \<and> rectangular table3
   \<and> sorted_wrt (<) (df_index (data_df series3))
   \<and> reads_intact series3
   \<and> int (length (df_index (data_df series3))) < 2 ^ 63
   \<and> 0 < length (df_index (data_df series3))
   \<and> df_index (data_df series3) ! 0 = 0
   \<and> 1 \<le> sint (1 :: 64 word) \<and> int 0 + 1 < sint (2 :: 64 word)
   \<and> - (2 ^ 63) \<le> int 0 + 1 - sint (2 :: 64 word) - sint (1 :: 64 word)
   \<and> sint (2 :: 64 word) < int (length (df_index (data_df series3)))
   \<and> get_bars series3 0 1 ''minute'' 2 = window_rows series3 0 2
   \<and> (\<exists>b. get_bars series3 0 1 ''minute'' 2 = Inr b
          \<and> bars_index b = Stamps [0, 60] \<and> (0::int) < 60 \<and> (1::int) < int (length [0::int, 60]))"
proof -
  have h1: "Data_init PyNone SPY table3 PyNone PyNone (PyStr ''minute'') PyNone = Inr series3"
    by (rule series3_init)
  have h2: "rectangular table3" by (simp add: rectangular_def table3_def)
  note h3 = series3_facts(1) and h4 = series3_facts(2) and h5 = series3_facts(3)
  have h6: "0 < length (df_index (data_df series3))" by (simp add: series3_facts(5))
  have h7: "df_index (data_df series3) ! 0 = 0" by (simp add: series3_facts(5))
  have h8: "1 \<le> sint (1 :: 64 word)" by simp
  have h9: "int 0 + 1 < sint (2 :: 64 word)" by simp
  have h10: "- (2 ^ 63) \<le> int 0 + 1 - sint (2 :: 64 word) - sint (1 :: 64 word)" by simp
  have n: "length (df_index (data_df series3)) = 3" by (simp add: series3_facts(5))
  from get_bars_negative_end_row [OF h1 h2 h3 h4 h5 h6 h7 h8 h9 h10, of "''minute''"]
  have "get_bars series3 0 1 ''minute'' 2 = window_rows series3 0 2"
    and "\<exists>b e. get_bars series3 0 1 ''minute'' 2 = Inr b \<and> int e = 2
            \<and> bars_index b = Stamps (take e (df_index (data_df series3)))"
    using series3_facts(4) by (auto simp: n)
  then show ?thesis
    using h1 h2 h3 h4 h5 by (auto simp: n) (auto simp: series3_facts(5))
qed

text \<open>
  Claim C10 as it was stated, for every series and every length, fails in three ways.
  On the series that is newest first, as of its first row with timeshift 2, the window
  holds that row and the next, and neither timestamp is later than the one asked for.
  On the four minute bars, as of the first row with timeshift 3 and the length \<open>2^63 - 1\<close>,
  \<open>end_row\<close> is \<open>-2\<close> and \<open>end_row - length\<close> wraps around to \<open>2^63 - 1\<close>, which is not
  clamped: the window is empty.  On the series with a column named \<open>iter_index\<close> the
  lookup raises IndexError.
\<close>

theorem get_bars_negative_end_row_newest_first:
  "Data_init PyNone SPY table_desc PyNone PyNone (PyStr ''day'') PyNone = Inr series_desc
   \<and> df_index (data_df series_desc) ! 0 = 172800
   \<and> int 0 + 1 < sint (2 :: 64 word)
   \<and> sint (2 :: 64 word) < int (length (df_index (data_df series_desc)))
   \<and> get_bars series_desc 172800 1 ''day'' 2
       = Inr \<lparr>bars_index = Stamps [172800, 86400], bars_columns = [(''close'', Vals [12, 11])]\<rparr>
   \<and> (172800::int) \<le> 172800 \<and> (86400::int) \<le> 172800
   \<and> Data_init PyNone SPY table4 PyNone PyNone (PyStr ''minute'') PyNone = Inr series4
   \<and> sorted_wrt (<) (df_index (data_df series4))
   \<and> df_index (data_df series4) ! 0 = 0
   \<and> int 0 + 1 < sint (3 :: 64 word)
   \<and> sint (3 :: 64 word) < int (length (df_index (data_df series4)))
   \<and> 1 \<le> sint (9223372036854775807 :: 64 word)
   \<and> get_bars series4 0 9223372036854775807 ''minute'' 3
       = Inr \<lparr>bars_index = Stamps [], bars_columns = [(''close'', Vals [])]\<rparr>
   \<and> Data_init PyNone SPY table_clash PyNone PyNone (PyStr ''minute'') PyNone = Inr series_clash
   \<and> sorted_wrt (<) (df_index (data_df series_clash))
   \<and> df_index (data_df series_clash) ! 0 = 0
   \<and> get_bars series_clash 0 1 ''minute'' 2 = Inl IndexError"
  by (simp add: series_desc_init series4_init series_clash_init get_bars_desc_first
        get_bars_series4_overflow get_bars_clash_raises)
     (simp add: series_desc_def series4_def series_clash_def)

section \<open>The sufficiency policy\<close>

lemma refine_ts_unit_same:
  "refine_ts_unit ts ts enough = (if enough then None else Some ts)"
  by (simp add: refine_ts_unit_def)

lemma refine_ts_unit_day_minute:
  "refine_ts_unit ''minute'' ''day'' enough = (if enough then None else Some ''minute'')"
  by (simp add: refine_ts_unit_def)

lemma refine_ts_unit_rank:
  assumes "refine_ts_unit data_timestep ts_unit enough = Some ts'"
    and "resolution_rank ts_unit = Some r" "resolution_rank data_timestep = Some r'"
  shows "\<exists>k. resolution_rank ts' = Some k \<and> k \<le> r'"
  using assms unfolding refine_ts_unit_def resolution_rank_def
  by (auto split: if_splits)

lemma download_logs:
  "fetch_log (snd (download env self a q s ts)) = fetch_log self @ [price_request self a q s ts]"
  "pandas_data (snd (download env self a q s ts)) = pandas_data self"
  "data_store (snd (download env self a q s ts)) = data_store self"
  "datetime_now (snd (download env self a q s ts)) = datetime_now self"
  by (auto simp: download_def Let_def split: sum.splits option.splits)

lemma rq_timespan_price_request [simp]:
  "rq_timespan (price_request self a q s ts) = ts"
  "rq_start (price_request self a q s ts) = s"
  "rq_asset (price_request self a q s ts) = a"
  by (simp_all add: price_request_def)

lemma update_pandas_data_cases:
  obtains
    (helper_error) e where
      "get_start_datetime_and_ts_unit env self len timestep start_dt START_BUFFER = Inl e"
      "update_pandas_data env self a quote len timestep start_dt = (Inl e, self)"
  | (cache_error) s ts e where
      "get_start_datetime_and_ts_unit env self len timestep start_dt START_BUFFER = Inr (s, ts)"
      "check_cache self (separate a quote) s ts = Inl e"
      "update_pandas_data env self a quote len timestep start_dt = (Inl e, self)"
  | (sufficient) s ts where
      "get_start_datetime_and_ts_unit env self len timestep start_dt START_BUFFER = Inr (s, ts)"
      "check_cache self (separate a quote) s ts = Inr None"
      "update_pandas_data env self a quote len timestep start_dt = (Inr None, self)"
  | (fetch) s ts ts' where
      "get_start_datetime_and_ts_unit env self len timestep start_dt START_BUFFER = Inr (s, ts)"
      "check_cache self (separate a quote) s ts = Inr (Some ts')"
      "update_pandas_data env self a quote len timestep start_dt =
         download env self (fst (separate a quote)) (snd (separate a quote)) s ts'"
proof (cases "get_start_datetime_and_ts_unit env self len timestep start_dt START_BUFFER")
  case (Inl e)
  then show ?thesis
    by (intro helper_error [of e]) (simp_all add: update_pandas_data_def split: prod.splits)
next
  case (Inr p)
  obtain s ts where p: "p = (s, ts)" by (cases p)
  show ?thesis
  proof (cases "check_cache self (separate a quote) s ts")
    case (Inl e)
    with Inr p show ?thesis
      by (intro cache_error [of s ts e])
         (auto simp: update_pandas_data_def split: prod.splits)
  next
    case r: (Inr o')
    show ?thesis
    proof (cases o')
      case None
      with Inr p r show ?thesis
        by (intro sufficient [of s ts])
           (auto simp: update_pandas_data_def split: prod.splits)
    next
      case (Some ts')
      with Inr p r show ?thesis
        by (intro fetch [of s ts ts'])
           (auto simp: update_pandas_data_def split: prod.splits)
    qed
  qed
qed

lemma update_pandas_data_caches:
  "pandas_data (snd (update_pandas_data env self a quote len timestep start_dt)) = pandas_data self"
  "data_store (snd (update_pandas_data env self a quote len timestep start_dt)) = data_store self"
  by (cases rule: update_pandas_data_cases [of env self len timestep start_dt a quote];
      simp add: download_logs)+

lemma update_pandas_data_eq:
  assumes "get_start_datetime_and_ts_unit env self len timestep start_dt START_BUFFER = Inr (s, ts)"
  shows "update_pandas_data env self a quote len timestep start_dt =
     (case check_cache self (separate a quote) s ts of
        Inl e \<Rightarrow> (Inl e, self)
      | Inr None \<Rightarrow> (Inr None, self)
      | Inr (Some ts') \<Rightarrow>
          download env self (fst (separate a quote)) (snd (separate a quote)) s ts')"
  using assms
  by (cases "separate a quote") (simp add: update_pandas_data_def split: sum.splits option.splits)

lemma check_cache_entry:
  assumes "pandas_data self k = Some entry" "ce_timestep entry = Some dts"
    and "entry_index entry = Inr (t0 # rest)"
  shows "check_cache self k s ts = Inr (refine_ts_unit dts ts (t0 - s < START_BUFFER))"
  using assms by (simp add: check_cache_def)

lemma entry_index_series3:
  "entry_index \<lparr>ce_data = series3, ce_timestep = x\<rparr> = Inr [0, 60, 120]"
  by (simp add: entry_index_def series3_def named_def)

lemma Min_sorted_Cons:
  fixes t0 :: int
  assumes "sorted_wrt (<) (t0 # rest)"
  shows "Min (set (t0 # rest)) = t0"
proof (rule Min_eqI)
  show "finite (set (t0 # rest))" by simp
  show "t0 \<in> set (t0 # rest)" by simp
  fix y assume "y \<in> set (t0 # rest)"
  then show "t0 \<le> y" using assms by auto
qed

lemma sep_SPY: "separate (OneAsset SPY) None = (SPY, USD)"
  by (simp add: separate_def USD_def)

lemma helper_env_of:
  "get_start_datetime_and_ts_unit (env_of p) self len (Some ts) start_dt buf =
     (case resolution_duration ts of
        None \<Rightarrow> Inl ValueError
      | Some dur \<Rightarrow> Inr (required_start (datetime_now self) len dur start_dt buf, ts))"
  by (simp add: env_of_def spec_get_start_datetime_and_ts_unit_def)

lemma env_of_sel:
  "get_price_data (env_of p) = p"
  "super_get_last_price (env_of p) self a quote exchange = Inr None"
  "super_pull_source_symbol_bars (env_of p) self a len timestep timeshift quote exchange iah
     = Inr None"
  by (simp_all add: env_of_def)

lemma check_cache_empty: "check_cache self_empty k s ts = Inr (Some ts)"
  by (simp add: check_cache_def self_empty_def)

text \<open>
  Claim C3, as amended.  Take the required start time as the spec words it: the explicit
  start time when the caller gives one, else the reference time minus length times the
  duration of the resolution minus the buffer of five days.  The code compares the first
  timestamp of the cached table, \<^verbatim>\<open>index[0]\<close>, which is the earliest one when the index is
  strictly increasing.  For every request whose key has a cache entry of the requested
  resolution, with a table whose index is not empty and strictly increasing,
  \<open>update_pandas_data\<close> returns \<open>None\<close> without calling the provider if and only if the
  earliest timestamp minus the required start time is less than the buffer; otherwise it
  calls the provider once, at the requested resolution and from the required start time.
\<close>

theorem cache_sufficient_iff:
  assumes "get_start_datetime_and_ts_unit env = spec_get_start_datetime_and_ts_unit"
    and "resolution_duration ts = Some dur"
    and "pandas_data self (separate a quote) = Some entry"
    and "ce_timestep entry = Some ts"
    and "entry_index entry = Inr idx"
    and "idx \<noteq> []"
    and "sorted_wrt (<) idx"
    and "start = (case start_dt of Some s \<Rightarrow> s
                  | None \<Rightarrow> datetime_now self - len * dur - START_BUFFER)"
  shows "((fst (update_pandas_data env self a quote len (Some ts) start_dt) = Inr None
           \<and> fetch_log (snd (update_pandas_data env self a quote len (Some ts) start_dt))
               = fetch_log self)
          \<longleftrightarrow> Min (set idx) - start < START_BUFFER)
     \<and> (\<not> Min (set idx) - start < START_BUFFER \<longrightarrow>
          fetch_log (snd (update_pandas_data env self a quote len (Some ts) start_dt))
            = fetch_log self @
                [price_request self (fst (separate a quote)) (snd (separate a quote)) start ts])"
proof -
  from assms(6) obtain t0 rest where idx: "idx = t0 # rest" by (cases idx) auto
  have t0: "Min (set idx) = t0"
    using assms(7) unfolding idx by (rule Min_sorted_Cons)
  have h: "get_start_datetime_and_ts_unit env self len (Some ts) start_dt START_BUFFER
             = Inr (start, ts)"
    by (simp add: assms(1,2,8) spec_get_start_datetime_and_ts_unit_def required_start_def)
  have c: "check_cache self (separate a quote) start ts
             = Inr (if t0 - start < START_BUFFER then None else Some ts)"
    using check_cache_entry [OF assms(3,4) assms(5) [unfolded idx]]
    by (simp add: refine_ts_unit_same)
  show ?thesis
  proof (cases "t0 - start < START_BUFFER")
    case True
    then have "update_pandas_data env self a quote len (Some ts) start_dt = (Inr None, self)"
      using c by (simp add: update_pandas_data_eq [OF h])
    with True show ?thesis by (simp add: t0)
  next
    case False
    then have "update_pandas_data env self a quote len (Some ts) start_dt
        = download env self (fst (separate a quote)) (snd (separate a quote)) start ts"
      using c by (simp add: update_pandas_data_eq [OF h])
    with False show ?thesis by (simp add: download_logs t0)
  qed
qed

text \<open>
  A cache of minute bars from time 0, asked at time 120: sufficient for one minute bar,
  not sufficient for two.
\<close>

theorem cache_sufficient_iff_witness:
  "get_start_datetime_and_ts_unit (env_of empty_provider) = spec_get_start_datetime_and_ts_unit
   \<and> resolution_duration ''minute'' = Some 60
   \<and> pandas_data (self_cached ''minute'') (separate (OneAsset SPY) None)
        = Some \<lparr>ce_data = series3, ce_timestep = Some ''minute''\<rparr>
   \<and> entry_index \<lparr>ce_data = series3, ce_timestep = Some ''minute''\<rparr> = Inr [0, 60, 120]
   \<and> sorted_wrt (<) [0, 60, 120 :: int]
   \<and> Min (set [0, 60, 120 :: int]) - (120 - 1 * 60 - START_BUFFER) < START_BUFFER
   \<and> \<not> Min (set [0, 60, 120 :: int]) - (120 - 2 * 60 - START_BUFFER) < START_BUFFER
   \<and> fst (update_pandas_data (env_of empty_provider) (self_cached ''minute'') (OneAsset SPY)
        None 1 (Some ''minute'') None) = Inr None
   \<and> fetch_log (snd (update_pandas_data (env_of empty_provider) (self_cached ''minute'')
        (OneAsset SPY) None 1 (Some ''minute'') None)) = []
   \<and> fetch_log (snd (update_pandas_data (env_of empty_provider) (self_cached ''minute'')
        (OneAsset SPY) None 2 (Some ''minute'') None))
      = [price_request (self_cached ''minute'') SPY USD (- 432000) ''minute'']"
proof -
  let ?e = "\<lparr>ce_data = series3, ce_timestep = Some ''minute''\<rparr> :: int cache_entry"
  have h1: "get_start_datetime_and_ts_unit (env_of empty_provider)
              = spec_get_start_datetime_and_ts_unit"
    by (simp add: env_of_def)
  have h2: "resolution_duration ''minute'' = Some 60"
    by (simp add: resolution_duration_def)
  have h3: "pandas_data (self_cached ''minute'') (separate (OneAsset SPY) None) = Some ?e"
    by (simp add: sep_SPY self_cached_def)
  have h4: "ce_timestep ?e = Some ''minute''" by simp
  have h5: "entry_index ?e = Inr [0, 60, 120]" by (rule entry_index_series3)
  have h6: "[0, 60, 120 :: int] \<noteq> []" by simp
  have h7: "sorted_wrt (<) [0, 60, 120 :: int]" by simp
  have now: "datetime_now (self_cached ''minute'') = 120"
    by (simp add: self_cached_def self_empty_def)
  have fl: "fetch_log (self_cached ''minute'') = []"
    by (simp add: self_cached_def self_empty_def)
  have m: "Min (set [0, 60, 120 :: int]) = 0"
    using Min_sorted_Cons [OF h7] .
  have a1: "Min (set [0, 60, 120 :: int]) - (120 - 1 * 60 - START_BUFFER) < START_BUFFER"
    and a2: "\<not> Min (set [0, 60, 120 :: int]) - (120 - 2 * 60 - START_BUFFER) < START_BUFFER"
    unfolding m by (simp_all add: START_BUFFER_def)
  have s1: "120 - 1 * 60 - START_BUFFER
      = (case None of Some s \<Rightarrow> s
         | None \<Rightarrow> datetime_now (self_cached ''minute'') - 1 * 60 - START_BUFFER)"
    and s2: "120 - 2 * 60 - START_BUFFER
      = (case None of Some s \<Rightarrow> s
         | None \<Rightarrow> datetime_now (self_cached ''minute'') - 2 * 60 - START_BUFFER)"
    by (simp_all add: now)
  from cache_sufficient_iff [OF h1 h2 h3 h4 h5 h6 h7 s1] a1
  have r1: "fst (update_pandas_data (env_of empty_provider) (self_cached ''minute'')
              (OneAsset SPY) None 1 (Some ''minute'') None) = Inr None"
    "fetch_log (snd (update_pandas_data (env_of empty_provider) (self_cached ''minute'')
        (OneAsset SPY) None 1 (Some ''minute'') None)) = []"
    by (simp_all add: fl)
  from cache_sufficient_iff [OF h1 h2 h3 h4 h5 h6 h7 s2] a2
  have r2: "fetch_log (snd (update_pandas_data (env_of empty_provider) (self_cached ''minute'')
        (OneAsset SPY) None 2 (Some ''minute'') None))
      = [price_request (self_cached ''minute'') SPY USD (120 - 2 * 60 - START_BUFFER) ''minute'']"
    by (simp add: sep_SPY fl)
  have r2': "fetch_log (snd (update_pandas_data (env_of empty_provider) (self_cached ''minute'')
        (OneAsset SPY) None 2 (Some ''minute'') None))
      = [price_request (self_cached ''minute'') SPY USD (- 432000) ''minute'']"
    using r2 by (simp add: START_BUFFER_def)
  show ?thesis
    using h1 h2 h3 h5 h7 a1 a2 r1 r2' by blast
qed

text \<open>
  Claim C3 as it was stated, for every cache entry of the requested resolution, fails
  on the cached series that is newest first: its earliest timestamp is 0, and 0 minus the
  required start time is less than the buffer, yet \<open>update_pandas_data\<close> compares the first
  timestamp, which is the latest, and calls the provider.
\<close>

theorem cache_newest_first_fetches:
  "pandas_data self_cached_desc (separate (OneAsset SPY) None)
     = Some \<lparr>ce_data = series_desc, ce_timestep = Some ''day''\<rparr>
   \<and> entry_index \<lparr>ce_data = series_desc, ce_timestep = Some ''day''\<rparr> = Inr [172800, 86400, 0]
   \<and> Min (set [172800, 86400, 0 :: int]) = 0
   \<and> (0 :: int) - (- 300000) < START_BUFFER
   \<and> fetch_log self_cached_desc = []
   \<and> fetch_log (snd (update_pandas_data (env_of empty_provider) self_cached_desc (OneAsset SPY)
        None 1 (Some ''day'') (Some (- 300000))))
      = [price_request self_cached_desc SPY USD (- 300000) ''day'']"
proof -
  let ?e = "\<lparr>ce_data = series_desc, ce_timestep = Some ''day''\<rparr> :: int cache_entry"
  have p: "pandas_data self_cached_desc (separate (OneAsset SPY) None) = Some ?e"
    by (simp add: sep_SPY self_cached_desc_def)
  have i: "entry_index ?e = Inr [172800, 86400, 0]"
    by (simp add: entry_index_def series_desc_def named_def)
  have m: "Min (set [172800, 86400, 0 :: int]) = 0"
    by (rule Min_eqI) auto
  have fl: "fetch_log self_cached_desc = []"
    by (simp add: self_cached_desc_def self_empty_def)
  have h: "get_start_datetime_and_ts_unit (env_of empty_provider) self_cached_desc 1
       (Some ''day'') (Some (- 300000)) START_BUFFER = Inr (- 300000, ''day'')"
    by (simp add: helper_env_of resolution_duration_def required_start_def)
  have c: "check_cache self_cached_desc (separate (OneAsset SPY) None) (- 300000) ''day''
      = Inr (Some ''day'')"
    using check_cache_entry [OF p _ i, of "''day''" "- 300000" "''day''"]
    by (simp add: refine_ts_unit_same START_BUFFER_def)
  have "fetch_log (snd (update_pandas_data (env_of empty_provider) self_cached_desc
        (OneAsset SPY) None 1 (Some ''day'') (Some (- 300000))))
      = [price_request self_cached_desc SPY USD (- 300000) ''day'']"
    by (simp add: update_pandas_data_eq [OF h] c [unfolded sep_SPY] download_logs sep_SPY fl)
  with p i m fl show ?thesis by (simp add: START_BUFFER_def)
qed

text \<open>
  Claim C4.  For a request that resolves to the timestep day against a cache entry of
  timestep minute, \<open>update_pandas_data\<close> calls the provider not at all or once with the
  timespan minute; when the cached table is not empty it either returns \<open>None\<close> and leaves
  the state as it was, or calls the provider with the timespan minute, unless a column
  named \<open>df\<close> has taken the place of the table, in which case it raises AttributeError
  before any call.  For any two of the resolutions minute, hour and day, a call of the
  provider is never at a resolution coarser than the cached one.
\<close>

theorem no_fetch_coarser_than_cache:
  assumes "get_start_datetime_and_ts_unit env self len timestep start_dt START_BUFFER
             = Inr (start_datetime, ts_unit)"
    and "pandas_data self (separate a quote) = Some entry"
    and "ce_timestep entry = Some data_timestep"
    and "res = update_pandas_data env self a quote len timestep start_dt"
  shows "(ts_unit = ''day'' \<and> data_timestep = ''minute'' \<longrightarrow>
            (fetch_log (snd res) = fetch_log self
             \<or> (\<exists>rq. fetch_log (snd res) = fetch_log self @ [rq] \<and> rq_timespan rq = ''minute''))
          \<and> (df_index (data_df (ce_data entry)) \<noteq> [] \<longrightarrow>
                res = (Inr None, self)
                \<or> (\<exists>rq. fetch_log (snd res) = fetch_log self @ [rq]
                      \<and> rq_timespan rq = ''minute'')
                \<or> (named ''df'' (attrs (ce_data entry)) \<and> res = (Inl AttributeError, self))))
     \<and> (\<forall>r r'. resolution_rank ts_unit = Some r \<and> resolution_rank data_timestep = Some r' \<longrightarrow>
            fetch_log (snd res) = fetch_log self
            \<or> (\<exists>rq k. fetch_log (snd res) = fetch_log self @ [rq]
                  \<and> resolution_rank (rq_timespan rq) = Some k \<and> k \<le> r'))"
proof (cases "entry_index entry")
  case (Inl e)
  then have e: "named ''df'' (attrs (ce_data entry))" "e = AttributeError"
    by (auto simp: entry_index_def split: if_splits)
  have "check_cache self (separate a quote) start_datetime ts_unit = Inl AttributeError"
    using assms(2) Inl e by (simp add: check_cache_def)
  then have "res = (Inl AttributeError, self)"
    by (simp add: assms(4) update_pandas_data_eq [OF assms(1)])
  with e show ?thesis by simp
next
  case (Inr idx)
  then have idx: "idx = df_index (data_df (ce_data entry))"
    by (auto simp: entry_index_def split: if_splits)
  show ?thesis
  proof (cases idx)
    case Nil
    then have "check_cache self (separate a quote) start_datetime ts_unit = Inl IndexError"
      using assms(2) Inr by (simp add: check_cache_def)
    then have "res = (Inl IndexError, self)"
      by (simp add: assms(4) update_pandas_data_eq [OF assms(1)])
    with Nil idx show ?thesis by simp
  next
    case (Cons t0 rest)
    let ?enough = "t0 - start_datetime < START_BUFFER"
    let ?a = "fst (separate a quote)" and ?q = "snd (separate a quote)"
    have c: "check_cache self (separate a quote) start_datetime ts_unit
               = Inr (refine_ts_unit data_timestep ts_unit ?enough)"
      using check_cache_entry [OF assms(2,3) Inr [unfolded Cons]] .
    show ?thesis
    proof (cases "refine_ts_unit data_timestep ts_unit ?enough")
      case None
      then have "res = (Inr None, self)"
        using c by (simp add: assms(4) update_pandas_data_eq [OF assms(1)])
      then show ?thesis by simp
    next
      case (Some ts')
      then have "res = download env self ?a ?q start_datetime ts'"
        using c by (simp add: assms(4) update_pandas_data_eq [OF assms(1)])
      then have log: "fetch_log (snd res)
          = fetch_log self @ [price_request self ?a ?q start_datetime ts']"
        by (simp add: download_logs)
      have "ts' = ''minute''" if "ts_unit = ''day''" "data_timestep = ''minute''"
        using Some that by (simp add: refine_ts_unit_day_minute split: if_splits)
      moreover have "\<exists>k. resolution_rank ts' = Some k \<and> k \<le> r'"
        if "resolution_rank ts_unit = Some r" "resolution_rank data_timestep = Some r'" for r r'
        using refine_ts_unit_rank [OF Some that] .
      ultimately show ?thesis
        using log by auto
    qed
  qed
qed

text \<open>One day bar asked at time 120 against the cache of minute bars from time 0.\<close>

theorem no_fetch_coarser_than_cache_witness:
  "get_start_datetime_and_ts_unit (env_of empty_provider) (self_cached ''minute'') 1
       (Some ''day'') None START_BUFFER = Inr (- 518280, ''day'')
   \<and> pandas_data (self_cached ''minute'') (separate (OneAsset SPY) None)
        = Some \<lparr>ce_data = series3, ce_timestep = Some ''minute''\<rparr>
   \<and> df_index (data_df series3) \<noteq> []
   \<and> resolution_rank ''day'' = Some 2 \<and> resolution_rank ''minute'' = Some 0
   \<and> (update_pandas_data (env_of empty_provider) (self_cached ''minute'') (OneAsset SPY) None 1
          (Some ''day'') None = (Inr None, self_cached ''minute'')
       \<or> (\<exists>rq. fetch_log (snd (update_pandas_data (env_of empty_provider) (self_cached ''minute'')
                   (OneAsset SPY) None 1 (Some ''day'') None))
                 = fetch_log (self_cached ''minute'') @ [rq]
               \<and> rq_timespan rq = ''minute''))
   \<and> (fetch_log (snd (update_pandas_data (env_of empty_provider) (self_cached ''minute'')
          (OneAsset SPY) None 1 (Some ''day'') None)) = fetch_log (self_cached ''minute'')
       \<or> (\<exists>rq k. fetch_log (snd (update_pandas_data (env_of empty_provider)
                     (self_cached ''minute'') (OneAsset SPY) None 1 (Some ''day'') None))
                   = fetch_log (self_cached ''minute'') @ [rq]
                 \<and> resolution_rank (rq_timespan rq) = Some k \<and> k \<le> 0))"
proof -
  let ?e = "\<lparr>ce_data = series3, ce_timestep = Some ''minute''\<rparr> :: int cache_entry"
  have h1: "get_start_datetime_and_ts_unit (env_of empty_provider) (self_cached ''minute'') 1
       (Some ''day'') None START_BUFFER = Inr (- 518280, ''day'')"
    by (simp add: helper_env_of resolution_duration_def required_start_def START_BUFFER_def
        self_cached_def self_empty_def)
  have h2: "pandas_data (self_cached ''minute'') (separate (OneAsset SPY) None) = Some ?e"
    by (simp add: sep_SPY self_cached_def)
  have h3: "ce_timestep ?e = Some ''minute''" by simp
  have h4: "df_index (data_df (ce_data ?e)) \<noteq> []" by (simp add: series3_def)
  have h5: "resolution_rank ''day'' = Some 2" "resolution_rank ''minute'' = Some 0"
    by (simp_all add: resolution_rank_def)
  have h6: "\<not> named ''df'' (attrs (ce_data ?e))" by (simp add: series3_def named_def)
  from no_fetch_coarser_than_cache [OF h1 h2 h3 refl] h4 h5 h6
  show ?thesis using h1 h2 by auto
qed

section \<open>Errors of the provider\<close>

lemma download_failing:
  "download (env_of failing_provider) self a q s ts =
     (Inl (PyException ''Error getting data from ThetaData''
             (Some (PyException ''connection refused'' None))),
      self\<lparr>fetch_log := fetch_log self @ [price_request self a q s ts],
           info_log := info_log self @ [LogTraceback (PyException ''connection refused'' None)]\<rparr>)"
  by (simp add: download_def Let_def env_of_sel failing_provider_def)

lemma pull_failing:
  "fst (pull_source_symbol_bars (env_of failing_provider) self_empty (OneAsset x) 1
        (Some ''minute'') None None None True)
      = Inl (PyException ''Error getting data from ThetaData''
               (Some (PyException ''connection refused'' None)))"
proof -
  have h1: "get_start_datetime_and_ts_unit (env_of failing_provider) self_empty 1
       (Some ''minute'') None START_BUFFER = Inr (- 431940, ''minute'')"
    by (simp add: helper_env_of resolution_duration_def required_start_def START_BUFFER_def
        self_empty_def)
  show ?thesis
    by (simp add: pull_source_symbol_bars_def update_pandas_data_eq [OF h1] check_cache_empty
        download_failing)
qed

text \<open>
  Claim C8, as amended.  For every request for bars that reaches the provider and in which
  the provider raises \<open>e\<close>, \<open>_pull_source_symbol_bars\<close> raises the builtin \<open>Exception\<close> with the
  fixed message and \<open>e\<close> as its cause; the cache is as before, the call of the provider
  and the traceback are logged.  The message does not name the asset.
\<close>

theorem provider_error_wrapped:
  assumes "get_start_datetime_and_ts_unit env self len timestep None START_BUFFER
             = Inr (start_datetime, ts_unit)"
    and "separate a quote = (asset_separated, quote_asset)"
    and "check_cache self (asset_separated, quote_asset) start_datetime ts_unit = Inr (Some ts')"
    and "get_price_data env (price_request self asset_separated quote_asset start_datetime ts')
           = Inl e"
    and "res = pull_source_symbol_bars env self a len timestep timeshift quote exchange iah"
  shows "fst res = Inl (PyException ''Error getting data from ThetaData'' (Some e))
     \<and> pandas_data (snd res) = pandas_data self
     \<and> fetch_log (snd res)
         = fetch_log self @ [price_request self asset_separated quote_asset start_datetime ts']
     \<and> info_log (snd res) = info_log self @ [LogTraceback e]"
proof -
  have "update_pandas_data env self a quote len timestep None
      = download env self asset_separated quote_asset start_datetime ts'"
    using assms(2,3) by (simp add: update_pandas_data_eq [OF assms(1)])
  also have "\<dots> = (Inl (PyException ''Error getting data from ThetaData'' (Some e)),
      self\<lparr>fetch_log := fetch_log self
               @ [price_request self asset_separated quote_asset start_datetime ts'],
           info_log := info_log self @ [LogTraceback e]\<rparr>)"
    using assms(4) by (simp add: download_def Let_def)
  finally show ?thesis
    by (simp add: assms(5) pull_source_symbol_bars_def)
qed

text \<open>A provider that refuses the connection, and an empty cache.\<close>

theorem provider_error_wrapped_witness:
  "get_start_datetime_and_ts_unit (env_of failing_provider) self_empty 1 (Some ''minute'') None
       START_BUFFER = Inr (- 431940, ''minute'')
   \<and> separate (OneAsset SPY) None = (SPY, USD)
   \<and> check_cache self_empty (SPY, USD) (- 431940) ''minute'' = Inr (Some ''minute'')
   \<and> get_price_data (env_of failing_provider)
        (price_request self_empty SPY USD (- 431940) ''minute'')
        = Inl (PyException ''connection refused'' None)
   \<and> fst (pull_source_symbol_bars (env_of failing_provider) self_empty (OneAsset SPY) 1
        (Some ''minute'') None None None True)
      = Inl (PyException ''Error getting data from ThetaData''
               (Some (PyException ''connection refused'' None)))"
proof -
  have h1: "get_start_datetime_and_ts_unit (env_of failing_provider) self_empty 1
       (Some ''minute'') None START_BUFFER = Inr (- 431940, ''minute'')"
    by (simp add: helper_env_of resolution_duration_def required_start_def START_BUFFER_def
        self_empty_def)
  have h3: "check_cache self_empty (SPY, USD) (- 431940) ''minute'' = Inr (Some ''minute'')"
    by (rule check_cache_empty)
  have h4: "get_price_data (env_of failing_provider)
        (price_request self_empty SPY USD (- 431940) ''minute'')
        = Inl (PyException ''connection refused'' None)"
    by (simp add: env_of_sel failing_provider_def)
  from provider_error_wrapped [OF h1 sep_SPY h3 h4 refl] h1 sep_SPY h3 h4
  show ?thesis by simp
qed

text \<open>
  Claim C8 as it was stated asks for an error that identifies the failing asset.  The
  requests for SPY and for AAPL raise the same value.
\<close>

theorem provider_error_does_not_name_asset:
  "fst (pull_source_symbol_bars (env_of failing_provider) self_empty (OneAsset SPY) 1
        (Some ''minute'') None None None True)
   = fst (pull_source_symbol_bars (env_of failing_provider) self_empty (OneAsset AAPL) 1
        (Some ''minute'') None None None True)
   \<and> SPY \<noteq> AAPL
   \<and> fst (pull_source_symbol_bars (env_of failing_provider) self_empty (OneAsset SPY) 1
        (Some ''minute'') None None None True)
     = Inl (PyException ''Error getting data from ThetaData''
              (Some (PyException ''connection refused'' None)))"
  by (simp add: pull_failing SPY_def AAPL_def)

text \<open>
  Claim C9.  Whatever \<open>update_pandas_data\<close> raises in a request for the last price, the
  result of \<open>get_last_price\<close> is the result of the inherited lookup: the error is logged
  with the time and the asset, both caches are as before, and nothing of the error
  reaches the caller.
\<close>

theorem get_last_price_falls_through:
  assumes "fst (update_pandas_data env self a quote 1 (Some timestep) (Some (datetime_now self)))
             = Inl e"
    and "res = ThetaData_get_last_price env self a timestep quote exchange"
  shows "fst res = super_get_last_price env (snd res) a quote exchange
     \<and> pandas_data (snd res) = pandas_data self
     \<and> data_store (snd res) = data_store self
     \<and> info_log (snd res)
         = info_log (snd (update_pandas_data env self a quote 1 (Some timestep)
                            (Some (datetime_now self))))
           @ [LogLastPriceError e (datetime_now self) a]"
proof -
  obtain r self1 where
    u: "update_pandas_data env self a quote 1 (Some timestep) (Some (datetime_now self)) = (r, self1)"
    by (cases "update_pandas_data env self a quote 1 (Some timestep) (Some (datetime_now self))")
  with assms(1) have r: "r = Inl e" by simp
  have "pandas_data self1 = pandas_data self" "data_store self1 = data_store self"
    using update_pandas_data_caches [of env self a quote 1 "Some timestep" "Some (datetime_now self)"]
    by (simp_all add: u)
  then show ?thesis
    by (simp add: assms(2) ThetaData_get_last_price_def Let_def u r)
qed

text \<open>The provider that refuses the connection: the error is logged, the lookup answers.\<close>

theorem get_last_price_falls_through_witness:
  "fst (update_pandas_data (env_of failing_provider) self_empty (OneAsset SPY) None 1
          (Some ''minute'') (Some (datetime_now self_empty)))
     = Inl (PyException ''Error getting data from ThetaData''
              (Some (PyException ''connection refused'' None)))
   \<and> fst (ThetaData_get_last_price (env_of failing_provider) self_empty (OneAsset SPY)
            ''minute'' None None) = Inr None
   \<and> pandas_data (snd (ThetaData_get_last_price (env_of failing_provider) self_empty
        (OneAsset SPY) ''minute'' None None)) = pandas_data self_empty
   \<and> info_log (snd (ThetaData_get_last_price (env_of failing_provider) self_empty
        (OneAsset SPY) ''minute'' None None))
      = [LogTraceback (PyException ''connection refused'' None),
         LogLastPriceError
           (PyException ''Error getting data from ThetaData''
              (Some (PyException ''connection refused'' None))) 120 (OneAsset SPY)]"
proof -
  have h1: "get_start_datetime_and_ts_unit (env_of failing_provider) self_empty 1
       (Some ''minute'') (Some (datetime_now self_empty)) START_BUFFER = Inr (120, ''minute'')"
    by (simp add: helper_env_of resolution_duration_def required_start_def self_empty_def)
  have u: "update_pandas_data (env_of failing_provider) self_empty (OneAsset SPY) None 1
          (Some ''minute'') (Some (datetime_now self_empty))
     = (Inl (PyException ''Error getting data from ThetaData''
              (Some (PyException ''connection refused'' None))),
        self_empty\<lparr>fetch_log := [price_request self_empty SPY USD 120 ''minute''],
                   info_log := [LogTraceback (PyException ''connection refused'' None)]\<rparr>)"
    by (simp add: update_pandas_data_eq [OF h1] check_cache_empty download_failing sep_SPY)
       (simp add: self_empty_def)
  have h: "fst (update_pandas_data (env_of failing_provider) self_empty (OneAsset SPY) None 1
          (Some ''minute'') (Some (datetime_now self_empty)))
     = Inl (PyException ''Error getting data from ThetaData''
              (Some (PyException ''connection refused'' None)))"
    by (simp add: u)
  from get_last_price_falls_through [OF h refl, of None] h
  show ?thesis by (simp add: env_of_sel u) (simp add: self_empty_def)
qed

section \<open>The refresh of the cache\<close>

lemma Data_call_quote:
  "Data_call [x, y] [(''timestep'', t), (''quote'', q)] = Inl TypeError"
  by (simp add: Data_call_def bind_args_def Data_params_def)

lemma download_table:
  "download (env_of table_provider) self a q s ts =
     (Inl TypeError, self\<lparr>fetch_log := fetch_log self @ [price_request self a q s ts]\<rparr>)"
  by (simp add: download_def Let_def env_of_sel table_provider_def Data_call_quote)



text \<open>
  Claim C5 at an empty cache, a request for two minute bars of SPY and a provider that
  answers with the three minute bars.  The call
  \<^verbatim>\<open>Data(asset_separated, df, timestep=ts_unit, quote=quote_asset)\<close> gives the constructor
  a keyword \<open>quote\<close> that is not among its parameters, and puts the asset in the place
  of \<open>strategy\<close> and the table in the place of \<open>asset\<close>: it raises TypeError.  The
  error leaves \<open>_pull_source_symbol_bars\<close> after one call of the provider, and the cache
  still has no entry for the key.
\<close>

theorem constructor_call_raises:
  "Data_call [PyAsset SPY, PyDataFrame table3] [(''timestep'', PyStr ''minute''), (''quote'', PyAsset USD)]
     = Inl TypeError
   \<and> pull_source_symbol_bars (env_of table_provider) self_empty (OneAsset SPY) 2 (Some ''minute'')
       None None None True
     = (Inl TypeError,
        self_empty\<lparr>fetch_log := [price_request self_empty SPY USD (- 432000) ''minute'']\<rparr>)
   \<and> pandas_data (snd (pull_source_symbol_bars (env_of table_provider) self_empty (OneAsset SPY) 2
        (Some ''minute'') None None None True)) (SPY, USD) = None"
proof -
  have h1: "get_start_datetime_and_ts_unit (env_of table_provider) self_empty 2
       (Some ''minute'') None START_BUFFER = Inr (- 432000, ''minute'')"
    by (simp add: helper_env_of resolution_duration_def required_start_def START_BUFFER_def
        self_empty_def)
  have p: "pull_source_symbol_bars (env_of table_provider) self_empty (OneAsset SPY) 2
       (Some ''minute'') None None None True
     = (Inl TypeError,
        self_empty\<lparr>fetch_log := fetch_log self_empty
                     @ [price_request self_empty SPY USD (- 432000) ''minute'']\<rparr>)"
    by (simp add: pull_source_symbol_bars_def update_pandas_data_eq [OF h1] check_cache_empty
        download_table sep_SPY)
  have fl: "fetch_log self_empty = []" "pandas_data self_empty (SPY, USD) = None"
    by (simp_all add: self_empty_def)
  show ?thesis
    by (simp add: Data_call_quote p fl)
qed

lemma check_cache_logs [simp]:
  "check_cache (self\<lparr>fetch_log := l, info_log := m\<rparr>) k st ts = check_cache self k st ts"
  by (simp add: check_cache_def)

lemma price_request_logs [simp]:
  "price_request (self\<lparr>fetch_log := l, info_log := m\<rparr>) a q st ts = price_request self a q st ts"
  by (simp add: price_request_def)









end
